theory Spec2Isabelle
  imports Complex_Main "HOL-Library.Char_ord" "HOL-Library.List_Lexorder" "HOL-Library.Multiset"
begin

section \<open>Errors\<close>

text \<open>
  The exceptions that the three Python files can raise, by their Python class. None of the
  files defines an exception class of its own: every raise comes from the interpreter
  (\<open>IndexError\<close>, \<open>ZeroDivisionError\<close>), from \<open>pathlib\<close> (\<open>NotADirectoryError\<close>),
  from torchvision's \<open>ImageFolder\<close> (\<open>FileNotFoundError\<close>), from PIL
  (\<open>UnidentifiedImageError\<close>) or from torch (\<open>RuntimeError\<close>).
\<close>

datatype error =
    FileNotFoundError
  | NotADirectoryError
  | UnidentifiedImageError
  | RuntimeError
  | IndexError
  | ZeroDivisionError

definition err_bind :: "error + 'a \<Rightarrow> ('a \<Rightarrow> error + 'b) \<Rightarrow> error + 'b" where
  "err_bind r f = (case r of Inl e \<Rightarrow> Inl e | Inr v \<Rightarrow> f v)"

fun err_map :: "('a \<Rightarrow> error + 'b) \<Rightarrow> 'a list \<Rightarrow> error + 'b list" where
  "err_map f [] = Inr []"
| "err_map f (x # xs) =
     (case f x of
        Inl e \<Rightarrow> Inl e
      | Inr y \<Rightarrow> (case err_map f xs of Inl e \<Rightarrow> Inl e | Inr ys \<Rightarrow> Inr (y # ys)))"

text \<open>Python's \<open>xs[i]\<close> for a non-negative index: out of range raises \<open>IndexError\<close>.\<close>

definition getitem :: "'a list \<Rightarrow> nat \<Rightarrow> error + 'a" where
  "getitem xs i = (if i < length xs then Inr (xs ! i) else Inl IndexError)"

section \<open>Values: JSON, tensors, images\<close>

datatype json =
    JStr string
  | JNum real
  | JArr "json list"
  | JObj "(string \<times> json) list"

record response =
  status_code :: nat
  content :: json

text \<open>
  A tensor is its shape and its elements, read by a full index. Elements are real numbers:
  the rounding of 32-bit floating point is not modelled. An index of the wrong rank reads 0.
\<close>

record tensor =
  shape :: "nat list"
  elem :: "nat list \<Rightarrow> real"

text \<open>An RGB image as PIL holds it: 8-bit samples, read by channel, row and column.\<close>

record image =
  height :: nat
  width :: nat
  pixel :: "nat \<Rightarrow> nat \<Rightarrow> nat \<Rightarrow> nat"

record upload =
  filename :: string
  data :: "nat list"

section \<open>Library behaviour taken as a parameter\<close>

text \<open>
  What the code calls and the repository does not define. \<open>topk\<close> is \<open>torch.topk\<close>
  on a vector, as pairs of value and index; \<open>float_repr\<close> is how an f-string prints a
  float; \<open>exc_str\<close> is \<open>str(e)\<close>; \<open>image_open\<close> is
  \<open>Image.open(io.BytesIO(b)).convert("RGB")\<close>; \<open>resample\<close> gives the pixels of
  \<open>transforms.Resize\<close>; \<open>random_flip\<close> and \<open>random_rotation\<close> are the two random
  augmentations and \<open>keep_mask\<close> the Bernoulli mask of \<open>nn.Dropout\<close>, each reading the
  state of the random generator; \<open>randperm\<close> is the shuffle of the \<open>DataLoader\<close>;
  \<open>init_param\<close> is the random initialisation of a parameter; \<open>is_image_file\<close> is
  torchvision's test of a file name's extension.
\<close>

record library =
  topk :: "real list \<Rightarrow> nat \<Rightarrow> (real \<times> nat) list"
  float_repr :: "real \<Rightarrow> string"
  exc_str :: "error \<Rightarrow> string"
  image_open :: "nat list \<Rightarrow> error + image"
  resample :: "nat \<Rightarrow> nat \<Rightarrow> image \<Rightarrow> nat \<Rightarrow> nat \<Rightarrow> nat \<Rightarrow> nat"
  random_flip :: "nat \<Rightarrow> image \<Rightarrow> image"
  random_rotation :: "nat \<Rightarrow> real \<Rightarrow> image \<Rightarrow> image"
  keep_mask :: "nat \<Rightarrow> nat list \<Rightarrow> bool"
  randperm :: "nat \<Rightarrow> nat \<Rightarrow> nat list"
  init_param :: "string \<Rightarrow> nat list \<Rightarrow> nat list \<Rightarrow> real"
  is_image_file :: "string \<Rightarrow> bool"

text \<open>
  The documented contract of \<open>torch.topk(input, k)\<close> with \<open>largest\<close> and \<open>sorted\<close>
  at their defaults: \<open>k\<close> distinct positions of the input with their values, no value left
  out that is larger than a chosen one, in descending order of value. The documentation
  fixes no order among equal values.
\<close>

definition is_topk :: "real list \<Rightarrow> nat \<Rightarrow> (real \<times> nat) list \<Rightarrow> bool" where
  "is_topk xs k r \<longleftrightarrow>
     length r = k
   \<and> distinct (map snd r)
   \<and> (\<forall>p \<in> set r. snd p < length xs \<and> fst p = xs ! snd p)
   \<and> sorted_wrt (\<lambda>a b. b \<le> a) (map fst r)
   \<and> (\<forall>j \<in> set [0..<length xs]. j \<in> set (map snd r) \<or> (\<forall>v \<in> set (map fst r). xs ! j \<le> v))"

definition topk_contract :: "(real list \<Rightarrow> nat \<Rightarrow> (real \<times> nat) list) \<Rightarrow> bool" where
  "topk_contract f \<longleftrightarrow> (\<forall>xs k. k \<le> length xs \<longrightarrow> is_topk xs k (f xs k))"

text \<open>
  Two functions that meet the contract and differ on ties: the first keeps equal values in
  ascending order of index, the second in descending order.
\<close>

definition topk_ties_ascending :: "real list \<Rightarrow> nat \<Rightarrow> (real \<times> nat) list" where
  "topk_ties_ascending xs k =
     map (\<lambda>i. (xs ! i, i)) (take k (sort_key (\<lambda>i. - (xs ! i)) [0..<length xs]))"

definition topk_ties_descending :: "real list \<Rightarrow> nat \<Rightarrow> (real \<times> nat) list" where
  "topk_ties_descending xs k =
     map (\<lambda>i. (xs ! i, i)) (take k (sort_key (\<lambda>i. - (xs ! i)) (rev [0..<length xs])))"

section \<open>The class registry: \<open>CLASS_NAMES\<close> (main.py 69-72, app.py 59-62)\<close>

text \<open>
  What the code sees of the directory \<open>retinal-samples\<close>: the path is absent, or it is
  something other than a directory, or it is a directory with entries, each a file (its
  name and bytes) or a directory (its name and entries). \<open>Path.iterdir()\<close> and
  \<open>os.scandir\<close> on a path that exists and is not a directory raise
  \<open>NotADirectoryError\<close>.
\<close>

datatype node =
    File string "nat list"
  | Dir string "node list"

fun node_name :: "node \<Rightarrow> string" where
  "node_name (File n b) = n"
| "node_name (Dir n ns) = n"

fun is_dir :: "node \<Rightarrow> bool" where
  "is_dir (File n b) = False"
| "is_dir (Dir n ns) = True"

datatype path_state =
    Absent
  | NotDirectory
  | Directory "node list"

definition default_classes :: "string list" where
  "default_classes = [''cataract'', ''diabetic-retinopathy'', ''glaucoma'', ''normal'']"

text \<open>
  \<open>sorted([p.name for p in DATASET_DIR.iterdir() if p.is_dir()])\<close>: Python compares
  strings by code point, lexicographically, a proper prefix first; that is the order of
  \<open>char list\<close> here (\<open>Char_ord\<close>, \<open>List_Lexorder\<close>), a name being its bytes
  in UTF-8, whose order agrees with the order of the code points.
\<close>

definition CLASS_NAMES :: "path_state \<Rightarrow> error + string list" where
  "CLASS_NAMES d =
     (case d of
        Absent \<Rightarrow> Inr default_classes
      | NotDirectory \<Rightarrow> Inl NotADirectoryError
      | Directory entries \<Rightarrow> Inr (sort [node_name p. p \<leftarrow> entries, is_dir p]))"

section \<open>Layers\<close>

text \<open>
  \<open>nn.Conv2d\<close> on a batch: the weight has shape (out, in, kh, kw), the input
  (batch, in, h, w). Outside the image the zero padding is read. A channel count that
  differs from the weight's, or a kernel larger than the padded image, raises.
\<close>

definition padded :: "nat \<Rightarrow> tensor \<Rightarrow> nat \<Rightarrow> nat \<Rightarrow> nat \<Rightarrow> nat \<Rightarrow> real" where
  "padded p x s q i j =
     (if p \<le> i \<and> i < shape x ! 2 + p \<and> p \<le> j \<and> j < shape x ! 3 + p
      then elem x [s, q, i - p, j - p] else 0)"

definition conv2d :: "nat \<Rightarrow> nat \<Rightarrow> tensor \<Rightarrow> tensor \<Rightarrow> tensor \<Rightarrow> error + tensor" where
  "conv2d stride p w b x =
     (if length (shape w) \<noteq> 4 \<or> length (shape x) \<noteq> 4 then Inl RuntimeError
      else
        let co = shape w ! 0; ci = shape w ! 1; kh = shape w ! 2; kw = shape w ! 3;
            n = shape x ! 0; c = shape x ! 1; h = shape x ! 2; wd = shape x ! 3
        in if c \<noteq> ci \<or> h + 2 * p < kh \<or> wd + 2 * p < kw then Inl RuntimeError
           else Inr \<lparr>shape = [n, co, (h + 2 * p - kh) div stride + 1,
                                     (wd + 2 * p - kw) div stride + 1],
                     elem = (\<lambda>idx. case idx of
                        [s, out, i, j] \<Rightarrow>
                          elem b [out] +
                          (\<Sum>q \<leftarrow> [0..<ci]. \<Sum>di \<leftarrow> [0..<kh]. \<Sum>dj \<leftarrow> [0..<kw].
                             elem w [out, q, di, dj] *
                             padded p x s q (i * stride + di) (j * stride + dj))
                      | _ \<Rightarrow> 0)\<rparr>)"

definition relu :: "tensor \<Rightarrow> tensor" where
  "relu x = \<lparr>shape = shape x, elem = (\<lambda>idx. max 0 (elem x idx))\<rparr>"

text \<open>\<open>nn.MaxPool2d(2, 2)\<close>: an input with a side shorter than the window raises.\<close>

definition max_pool2d :: "tensor \<Rightarrow> error + tensor" where
  "max_pool2d x =
     (if length (shape x) \<noteq> 4 then Inl RuntimeError
      else
        let n = shape x ! 0; c = shape x ! 1; h = shape x ! 2; wd = shape x ! 3
        in if h < 2 \<or> wd < 2 then Inl RuntimeError
           else Inr \<lparr>shape = [n, c, (h - 2) div 2 + 1, (wd - 2) div 2 + 1],
                     elem = (\<lambda>idx. case idx of
                        [s, q, i, j] \<Rightarrow>
                          max (max (elem x [s, q, 2 * i, 2 * j]) (elem x [s, q, 2 * i, 2 * j + 1]))
                              (max (elem x [s, q, 2 * i + 1, 2 * j])
                                   (elem x [s, q, 2 * i + 1, 2 * j + 1]))
                      | _ \<Rightarrow> 0)\<rparr>)"

text \<open>\<open>torch.flatten(x, 1)\<close>: all dimensions after the first become one, row-major.\<close>

fun unravel :: "nat list \<Rightarrow> nat \<Rightarrow> nat list" where
  "unravel [] k = []"
| "unravel (d # ds) k = (k div prod_list ds) # unravel ds (k mod prod_list ds)"

definition flatten :: "tensor \<Rightarrow> error + tensor" where
  "flatten x =
     (case shape x of
        [] \<Rightarrow> Inl IndexError
      | n # rest \<Rightarrow>
          Inr \<lparr>shape = [n, prod_list rest],
               elem = (\<lambda>idx. case idx of [s, k] \<Rightarrow> elem x (s # unravel rest k) | _ \<Rightarrow> 0)\<rparr>)"

text \<open>
  \<open>nn.Linear\<close> on a batch of rows: the weight has shape (out, in); a row of another
  length raises.
\<close>

definition linear :: "tensor \<Rightarrow> tensor \<Rightarrow> tensor \<Rightarrow> error + tensor" where
  "linear w b x =
     (if length (shape w) \<noteq> 2 \<or> length (shape x) \<noteq> 2 then Inl RuntimeError
      else
        let out = shape w ! 0; inp = shape w ! 1; n = shape x ! 0; f = shape x ! 1
        in if f \<noteq> inp then Inl RuntimeError
           else Inr \<lparr>shape = [n, out],
                     elem = (\<lambda>idx. case idx of
                        [s, j] \<Rightarrow> elem b [j] + (\<Sum>k \<leftarrow> [0..<inp]. elem x [s, k] * elem w [j, k])
                      | _ \<Rightarrow> 0)\<rparr>)"

text \<open>
  \<open>nn.Dropout(p)\<close>: in training mode each element is kept with probability \<open>1 - p\<close>
  and scaled, by a mask drawn from the random generator; in eval mode it is the identity
  and the generator is not read.
\<close>

definition dropout :: "library \<Rightarrow> real \<Rightarrow> bool \<Rightarrow> nat \<Rightarrow> tensor \<Rightarrow> tensor" where
  "dropout L p train rng x =
     (if train
      then \<lparr>shape = shape x,
            elem = (\<lambda>idx. if keep_mask L rng idx then elem x idx / (1 - p) else 0)\<rparr>
      else x)"

section \<open>\<open>RetinaCNN\<close> (main.py 16-35, app.py 15-34, train_cnn.py 31-57)\<close>

text \<open>
  The module is its parameters, by the names of its \<open>state_dict\<close>, and the flag
  \<open>training\<close> of \<open>nn.Module\<close>, which \<open>train()\<close> sets and \<open>eval()\<close> clears.
\<close>

record RetinaCNN =
  params :: "string \<Rightarrow> tensor"
  training :: bool

definition param_names :: "string list" where
  "param_names =
     [''conv1.weight'', ''conv1.bias'', ''conv2.weight'', ''conv2.bias'',
      ''conv3.weight'', ''conv3.bias'', ''fc1.weight'', ''fc1.bias'',
      ''fc2.weight'', ''fc2.bias'']"

text \<open>The shapes that \<open>__init__(num_classes)\<close> gives the parameters.\<close>

definition param_shape :: "nat \<Rightarrow> string \<Rightarrow> nat list" where
  "param_shape num_classes name =
     (if name = ''conv1.weight'' then [32, 3, 3, 3]
      else if name = ''conv1.bias'' then [32]
      else if name = ''conv2.weight'' then [64, 32, 3, 3]
      else if name = ''conv2.bias'' then [64]
      else if name = ''conv3.weight'' then [128, 64, 3, 3]
      else if name = ''conv3.bias'' then [128]
      else if name = ''fc1.weight'' then [256, 128 * 28 * 28]
      else if name = ''fc1.bias'' then [256]
      else if name = ''fc2.weight'' then [num_classes, 256]
      else if name = ''fc2.bias'' then [num_classes]
      else [])"

definition RetinaCNN_init :: "library \<Rightarrow> nat \<Rightarrow> RetinaCNN" where
  "RetinaCNN_init L num_classes =
     \<lparr>params = (\<lambda>name. \<lparr>shape = param_shape num_classes name,
                         elem = init_param L name (param_shape num_classes name)\<rparr>),
      training = True\<rparr>"

definition eval_mode :: "RetinaCNN \<Rightarrow> RetinaCNN" where
  "eval_mode m = m\<lparr>training := False\<rparr>"

definition train_mode :: "RetinaCNN \<Rightarrow> RetinaCNN" where
  "train_mode m = m\<lparr>training := True\<rparr>"

text \<open>
  \<open>forward\<close>, for the batched input that both call sites pass. \<open>rng\<close> is the state of
  the random generator, which only the dropout of training mode reads.
\<close>

definition forward :: "library \<Rightarrow> RetinaCNN \<Rightarrow> nat \<Rightarrow> tensor \<Rightarrow> error + tensor" where
  "forward L m rng x =
     err_bind (conv2d 1 1 (params m ''conv1.weight'') (params m ''conv1.bias'') x) (\<lambda>c1.
     err_bind (max_pool2d (relu c1)) (\<lambda>p1.
     err_bind (conv2d 1 1 (params m ''conv2.weight'') (params m ''conv2.bias'') p1) (\<lambda>c2.
     err_bind (max_pool2d (relu c2)) (\<lambda>p2.
     err_bind (conv2d 1 1 (params m ''conv3.weight'') (params m ''conv3.bias'') p2) (\<lambda>c3.
     err_bind (max_pool2d (relu c3)) (\<lambda>p3.
     err_bind (flatten p3) (\<lambda>fl.
     err_bind (linear (params m ''fc1.weight'') (params m ''fc1.bias'') fl) (\<lambda>h.
     linear (params m ''fc2.weight'') (params m ''fc2.bias'')
       (dropout L (1 / 2) (training m) rng (relu h))))))))))"

section \<open>Loading the checkpoint (main.py 79-83, app.py 74-78)\<close>

text \<open>
  \<open>state_dict()\<close> lists the parameters by name. \<open>load_state_dict\<close>, with \<open>strict\<close>
  at its default, raises \<open>RuntimeError\<close> when a key is missing, a key is unexpected, or
  the shape of an entry differs from the shape of the module's parameter; otherwise it
  copies every entry into the module.
\<close>

definition state_dict :: "RetinaCNN \<Rightarrow> (string \<times> tensor) list" where
  "state_dict m = map (\<lambda>name. (name, params m name)) param_names"

definition load_state_dict :: "RetinaCNN \<Rightarrow> (string \<times> tensor) list \<Rightarrow> error + RetinaCNN" where
  "load_state_dict m sd =
     (let missing = [name \<leftarrow> param_names. map_of sd name = None];
          unexpected = [name \<leftarrow> map fst sd. name \<notin> set param_names];
          mismatched = [name \<leftarrow> param_names.
                          case map_of sd name of
                            None \<Rightarrow> False
                          | Some t \<Rightarrow> shape t \<noteq> shape (params m name)]
      in if missing \<noteq> [] \<or> unexpected \<noteq> [] \<or> mismatched \<noteq> [] then Inl RuntimeError
         else Inr (m\<lparr>params := (\<lambda>name. case map_of sd name of
                                            None \<Rightarrow> params m name
                                          | Some t \<Rightarrow> t)\<rparr>))"

text \<open>
  The module-level code of the two servers up to the point where the routes can answer:
  the registry, a fresh module of that many classes, \<open>torch.load\<close> (whose result, the
  mapping read from \<open>model.pth\<close> or the error it raised, is the argument \<open>loaded\<close>),
  \<open>load_state_dict\<close>, \<open>eval()\<close>. An exception at any step ends the import of the module,
  and no route is ever served.
\<close>

record service =
  class_names :: "string list"
  model :: RetinaCNN

definition startup ::
  "library \<Rightarrow> path_state \<Rightarrow> error + (string \<times> tensor) list \<Rightarrow> error + service" where
  "startup L dataset_dir loaded =
     err_bind (CLASS_NAMES dataset_dir) (\<lambda>names.
     err_bind loaded (\<lambda>sd.
     err_bind (load_state_dict (RetinaCNN_init L (length names)) sd) (\<lambda>m.
     Inr \<lparr>class_names = names, model = eval_mode m\<rparr>)))"

section \<open>Preprocessing for inference (main.py 90-95, app.py 86-93)\<close>

definition Resize :: "library \<Rightarrow> nat \<Rightarrow> nat \<Rightarrow> image \<Rightarrow> image" where
  "Resize L h w img = \<lparr>height = h, width = w, pixel = resample L h w img\<rparr>"

definition ToTensor :: "image \<Rightarrow> tensor" where
  "ToTensor img =
     \<lparr>shape = [3, height img, width img],
      elem = (\<lambda>idx. case idx of [c, y, x] \<Rightarrow> real (pixel img c y x) / 255 | _ \<Rightarrow> 0)\<rparr>"

definition Normalize :: "real list \<Rightarrow> real list \<Rightarrow> tensor \<Rightarrow> tensor" where
  "Normalize mean std t =
     \<lparr>shape = shape t,
      elem = (\<lambda>idx. case idx of [c, y, x] \<Rightarrow> (elem t idx - mean ! c) / std ! c | _ \<Rightarrow> 0)\<rparr>"

definition norm_mean :: "real list" where
  "norm_mean = [485 / 1000, 456 / 1000, 406 / 1000]"

definition norm_std :: "real list" where
  "norm_std = [229 / 1000, 224 / 1000, 225 / 1000]"

definition transform :: "library \<Rightarrow> image \<Rightarrow> tensor" where
  "transform L img = Normalize norm_mean norm_std (ToTensor (Resize L 224 224 img))"

definition unsqueeze0 :: "tensor \<Rightarrow> tensor" where
  "unsqueeze0 t =
     \<lparr>shape = 1 # shape t, elem = (\<lambda>idx. case idx of [] \<Rightarrow> 0 | s # rest \<Rightarrow> elem t rest)\<rparr>"

section \<open>Softmax, arg-max, top-k, rounding\<close>

text \<open>\<open>F.softmax\<close> of a vector of logits.\<close>

definition softmax :: "real list \<Rightarrow> real list" where
  "softmax logits = map (\<lambda>z. exp z / (\<Sum>y \<leftarrow> logits. exp y)) logits"

text \<open>
  \<open>F.softmax(outputs, dim=1)[0]\<close>: the softmax of the first row of a batch of logits.
\<close>

definition row :: "tensor \<Rightarrow> nat \<Rightarrow> real list" where
  "row t s = map (\<lambda>j. elem t [s, j]) [0..<shape t ! 1]"

definition softmax_row0 :: "tensor \<Rightarrow> error + real list" where
  "softmax_row0 outputs =
     (if length (shape outputs) \<noteq> 2 \<or> shape outputs ! 0 = 0 then Inl IndexError
      else Inr (softmax (row outputs 0)))"

text \<open>
  \<open>probs.argmax()\<close>: the index of the first maximal value; an empty tensor raises.
\<close>

fun argmax_scan :: "real list \<Rightarrow> nat \<Rightarrow> nat \<Rightarrow> real \<Rightarrow> nat" where
  "argmax_scan [] i best v = best"
| "argmax_scan (x # xs) i best v =
     (if v < x then argmax_scan xs (Suc i) i x else argmax_scan xs (Suc i) best v)"

definition argmax :: "real list \<Rightarrow> error + nat" where
  "argmax xs = (case xs of [] \<Rightarrow> Inl RuntimeError | x # rest \<Rightarrow> Inr (argmax_scan rest 1 0 x))"

text \<open>\<open>torch.topk(probs, k)\<close>: \<open>k\<close> beyond the length of the input raises.\<close>

definition torch_topk :: "library \<Rightarrow> real list \<Rightarrow> nat \<Rightarrow> error + (real \<times> nat) list" where
  "torch_topk L xs k = (if length xs < k then Inl RuntimeError else Inr (topk L xs k))"

text \<open>
  Python's \<open>round(x, ndigits)\<close>: to the nearest multiple of \<open>10 ^ -ndigits\<close>, a tie to
  the even one.
\<close>

definition round_half_even :: "real \<Rightarrow> int" where
  "round_half_even x =
     (let f = \<lfloor>x\<rfloor>; d = x - of_int f
      in if d < 1 / 2 then f else if 1 / 2 < d then f + 1 else if even f then f else f + 1)"

definition py_round :: "real \<Rightarrow> nat \<Rightarrow> real" where
  "py_round x ndigits = of_int (round_half_even (x * 10 ^ ndigits)) / 10 ^ ndigits"

section \<open>\<open>/predict\<close> of main.py (108-152)\<close>

definition confidence_threshold :: real where
  "confidence_threshold = 65 / 100"

definition uncertain_message :: string where
  "uncertain_message = ''Image does not appear to contain a recognizable retina pattern.''"

definition detected_message :: "library \<Rightarrow> string \<Rightarrow> real \<Rightarrow> string" where
  "detected_message L label confidence =
     ''Detected '' @ label @ '' with '' @ float_repr L (py_round (confidence * 100) 2)
       @ ''% confidence.''"

text \<open>
  Lines 121-149: from the probabilities to the content of the response. \<open>now\<close> is
  \<open>datetime.now().isoformat()\<close> at the call.
\<close>

definition respond ::
  "library \<Rightarrow> string list \<Rightarrow> string \<Rightarrow> string \<Rightarrow> real list \<Rightarrow> error + json" where
  "respond L names fname now probs =
     err_bind (argmax probs) (\<lambda>top_idx.
     err_bind (getitem probs top_idx) (\<lambda>confidence.
     err_bind (getitem names top_idx) (\<lambda>label.
     err_bind (torch_topk L probs (min 3 (length names))) (\<lambda>top.
     err_bind (err_map (\<lambda>p. err_bind (getitem names (snd p)) (\<lambda>c.
                  Inr (JObj [(''class'', JStr c), (''confidence'', JNum (fst p))]))) top)
       (\<lambda>top_predictions.
     let gated = (confidence < confidence_threshold);
         label' = (if gated then ''uncertain'' else label);
         message = (if gated then uncertain_message else detected_message L label confidence)
     in Inr (JObj [(''filename'', JStr fname),
                   (''prediction'', JStr label'),
                   (''confidence'', JNum (py_round confidence 4)),
                   (''top_predictions'', JArr top_predictions),
                   (''message'', JStr message),
                   (''timestamp'', JStr now)]))))))"

text \<open>Lines 111-119: from the uploaded bytes to the probabilities.\<close>

definition infer :: "library \<Rightarrow> service \<Rightarrow> nat \<Rightarrow> upload \<Rightarrow> error + real list" where
  "infer L srv rng file =
     err_bind (image_open L (data file)) (\<lambda>img.
     err_bind (forward L (model srv) rng (unsqueeze0 (transform L img))) (\<lambda>outputs.
     softmax_row0 outputs))"

text \<open>The whole route: any exception of the body becomes the answer 500.\<close>

definition predict :: "library \<Rightarrow> service \<Rightarrow> nat \<Rightarrow> string \<Rightarrow> upload \<Rightarrow> response" where
  "predict L srv rng now file =
     (case err_bind (infer L srv rng file)
             (respond L (class_names srv) (filename file) now) of
        Inl e \<Rightarrow> \<lparr>status_code = 500, content = JObj [(''error'', JStr (exc_str L e))]\<rparr>
      | Inr c \<Rightarrow> \<lparr>status_code = 200, content = c\<rparr>)"

section \<open>\<open>/predict\<close> of app.py (107-126)\<close>

text \<open>
  Lines 117-126. \<open>utcnow\<close> is \<open>datetime.utcnow().isoformat()\<close> at the call. The route
  has no \<open>try\<close>: an exception leaves it.
\<close>

definition respond_app :: "string list \<Rightarrow> string \<Rightarrow> string \<Rightarrow> real list \<Rightarrow> error + json" where
  "respond_app names fname utcnow probs =
     err_bind (argmax probs) (\<lambda>top_idx.
     err_bind (getitem probs top_idx) (\<lambda>confidence.
     err_bind (getitem names top_idx) (\<lambda>prediction.
     Inr (JObj [(''filename'', JStr fname),
                (''prediction'', JStr prediction),
                (''confidence'', JNum (py_round confidence 4)),
                (''timestamp'', JStr utcnow)]))))"

definition predict_app ::
  "library \<Rightarrow> service \<Rightarrow> nat \<Rightarrow> string \<Rightarrow> upload \<Rightarrow> error + json" where
  "predict_app L srv rng utcnow file =
     err_bind (infer L srv rng file) (respond_app (class_names srv) (filename file) utcnow)"

section \<open>The training script (train_cnn.py)\<close>

definition BATCH_SIZE :: nat where
  "BATCH_SIZE = 32"

definition NUM_EPOCHS :: nat where
  "NUM_EPOCHS = 10"

definition NUM_CLASSES :: nat where
  "NUM_CLASSES = 4"

text \<open>
  \<open>datasets.ImageFolder(DATA_DIR, transform)\<close>, as torchvision documents it: the
  classes are the subdirectories in sorted order; the samples of a class are the files
  below its directory whose extension is an image's, each with the index of the class. It
  raises \<open>FileNotFoundError\<close> when there is no class directory and when a class has no
  such file. (The order of the files within a class is left as the directory gives it: the
  loader shuffles.)
\<close>

fun files_under :: "node \<Rightarrow> (string \<times> nat list) list" where
  "files_under (File n b) = [(n, b)]"
| "files_under (Dir n ns) = concat (map files_under ns)"

definition class_samples :: "library \<Rightarrow> node \<Rightarrow> nat list list" where
  "class_samples L p = [snd f. f \<leftarrow> files_under p, is_image_file L (fst f)]"

record dataset =
  classes :: "string list"
  samples :: "(nat list \<times> nat) list"

definition ImageFolder :: "library \<Rightarrow> path_state \<Rightarrow> error + dataset" where
  "ImageFolder L d =
     (case d of
        Absent \<Rightarrow> Inl FileNotFoundError
      | NotDirectory \<Rightarrow> Inl NotADirectoryError
      | Directory entries \<Rightarrow>
          let dirs = sort_key node_name [p \<leftarrow> entries. is_dir p];
              per_class = map (\<lambda>(idx, p). map (\<lambda>b. (b, idx)) (class_samples L p))
                              (enumerate 0 dirs)
          in if dirs = [] then Inl FileNotFoundError
             else if [] \<in> set per_class then Inl FileNotFoundError
             else Inr \<lparr>classes = map node_name dirs, samples = concat per_class\<rparr>)"

text \<open>
  The transform of training (lines 62-69) and the loading of one sample; the flip and the
  rotation each read the random generator.
\<close>

definition train_transform :: "library \<Rightarrow> nat \<Rightarrow> image \<Rightarrow> tensor" where
  "train_transform L rng img =
     Normalize norm_mean norm_std
       (ToTensor (random_rotation L (Suc rng) 10 (random_flip L rng (Resize L 224 224 img))))"

definition load_sample :: "library \<Rightarrow> nat \<Rightarrow> nat list \<times> nat \<Rightarrow> error + tensor \<times> nat" where
  "load_sample L rng s =
     err_bind (image_open L (fst s)) (\<lambda>img. Inr (train_transform L rng img, snd s))"

text \<open>
  \<open>DataLoader(dataset, batch_size, shuffle=True)\<close>: the batches of an epoch are the
  consecutive blocks of a random permutation of the indices, the last one shorter when the
  size does not divide; a batch stacks its samples, which must agree in shape.
\<close>

definition chunks :: "nat \<Rightarrow> 'a list \<Rightarrow> 'a list list" where
  "chunks k xs = map (\<lambda>b. take k (drop (b * k) xs)) [0..<(length xs + k - 1) div k]"

definition stack :: "tensor list \<Rightarrow> error + tensor" where
  "stack ts =
     (case ts of
        [] \<Rightarrow> Inl RuntimeError
      | t # rest \<Rightarrow>
          if list_ex (\<lambda>u. shape u \<noteq> shape t) rest then Inl RuntimeError
          else Inr \<lparr>shape = length ts # shape t,
                    elem = (\<lambda>idx. case idx of
                       [] \<Rightarrow> 0
                     | s # r \<Rightarrow> if s < length ts then elem (ts ! s) r else 0)\<rparr>)"

definition fetch_batch ::
  "library \<Rightarrow> dataset \<Rightarrow> nat \<Rightarrow> nat list \<Rightarrow> error + tensor \<times> nat list" where
  "fetch_batch L ds rng idxs =
     err_bind (err_map (\<lambda>(j, i). err_bind (getitem (samples ds) i) (load_sample L (rng + 2 * j)))
                 (enumerate 0 idxs)) (\<lambda>items.
     err_bind (stack (map fst items)) (\<lambda>images. Inr (images, map snd items)))"

text \<open>
  \<open>nn.CrossEntropyLoss()\<close>: the mean over the batch of the negative log of the
  probability of the true class; a label that is no class index raises.
\<close>

definition cross_entropy :: "tensor \<Rightarrow> nat list \<Rightarrow> error + real" where
  "cross_entropy outputs labels =
     (if length (shape outputs) \<noteq> 2 \<or> shape outputs ! 0 \<noteq> length labels \<or> labels = []
      then Inl RuntimeError
      else if list_ex (\<lambda>y. shape outputs ! 1 \<le> y) labels then Inl IndexError
      else Inr ((\<Sum>s \<leftarrow> [0..<length labels]. - ln (softmax (row outputs s) ! (labels ! s)))
                / real (length labels)))"

text \<open>
  The state of the loop: the module, the state of the optimiser, the random generator, and
  the three counters of the epoch. \<open>loss.backward()\<close> and \<open>optimizer.step()\<close> together
  are the parameter \<open>step\<close>: from the optimiser's state, the module, the generator's state
  at the forward pass, the batch and its labels, to the new optimiser state and the new
  parameters.
\<close>

record 'o trainer =
  net :: RetinaCNN
  opt :: 'o
  gen :: nat
  running_loss :: real
  correct :: nat
  total :: nat

type_synonym 'o optimizer_step =
  "'o \<Rightarrow> RetinaCNN \<Rightarrow> nat \<Rightarrow> tensor \<Rightarrow> nat list \<Rightarrow> 'o \<times> (string \<Rightarrow> tensor)"

text \<open>Lines 93-105: one batch.\<close>

definition train_batch ::
  "'o optimizer_step \<Rightarrow> library \<Rightarrow> dataset \<Rightarrow> 'o trainer \<Rightarrow> nat list \<Rightarrow> error + 'o trainer" where
  "train_batch step L ds st idxs =
     err_bind (fetch_batch L ds (gen st) idxs) (\<lambda>(images, labels).
     let g = gen st + 2 * length idxs in
     err_bind (forward L (net st) g images) (\<lambda>outputs.
     err_bind (cross_entropy outputs labels) (\<lambda>loss.
     let (opt', params') = step (opt st) (net st) g images labels in
     err_bind (err_map (\<lambda>s. argmax (row outputs s)) [0..<length labels]) (\<lambda>predicted.
     Inr (st\<lparr>net := (net st)\<lparr>params := params'\<rparr>,
              opt := opt',
              gen := Suc g,
              running_loss := running_loss st + loss,
              total := total st + length labels,
              correct := correct st + length [p \<leftarrow> zip predicted labels. fst p = snd p]\<rparr>)))))"

fun train_batches ::
  "'o optimizer_step \<Rightarrow> library \<Rightarrow> dataset \<Rightarrow> 'o trainer \<Rightarrow> nat list list \<Rightarrow> error + 'o trainer" where
  "train_batches step L ds st [] = Inr st"
| "train_batches step L ds st (b # bs) =
     (case train_batch step L ds st b of
        Inl e \<Rightarrow> Inl e
      | Inr st' \<Rightarrow> train_batches step L ds st' bs)"

text \<open>
  Lines 88-109: one epoch. Both divisions are Python's true division, which raises
  \<open>ZeroDivisionError\<close> on a zero divisor.
\<close>

definition train_epoch ::
  "'o optimizer_step \<Rightarrow> library \<Rightarrow> dataset \<Rightarrow> 'o trainer \<Rightarrow> error + 'o trainer \<times> real \<times> real" where
  "train_epoch step L ds st =
     (let batches = chunks BATCH_SIZE (randperm L (gen st) (length (samples ds)));
          st0 = st\<lparr>net := train_mode (net st), gen := Suc (gen st),
                   running_loss := 0, correct := 0, total := 0\<rparr>
      in err_bind (train_batches step L ds st0 batches) (\<lambda>st1.
         if length batches = 0 then Inl ZeroDivisionError
         else if total st1 = 0 then Inl ZeroDivisionError
         else Inr (st1, running_loss st1 / real (length batches),
                   100 * real (correct st1) / real (total st1))))"

text \<open>What the script prints, in order.\<close>

datatype event =
    UsingDevice
  | Found nat nat
  | Starting nat
  | EpochMetrics nat real real
  | Saved

fun train_epochs ::
  "'o optimizer_step \<Rightarrow> library \<Rightarrow> dataset \<Rightarrow> nat \<Rightarrow> nat \<Rightarrow> 'o trainer \<Rightarrow> event list
     \<Rightarrow> event list \<times> (error + 'o trainer)" where
  "train_epochs step L ds 0 epoch st ev = (ev, Inr st)"
| "train_epochs step L ds (Suc k) epoch st ev =
     (case train_epoch step L ds st of
        Inl e \<Rightarrow> (ev, Inl e)
      | Inr (st', loss, acc) \<Rightarrow>
          train_epochs step L ds k (Suc epoch) st' (ev @ [EpochMetrics (Suc epoch) loss acc]))"

text \<open>
  The script from its first line to \<open>torch.save\<close>: the lines printed and either the
  exception that ended it or the saved \<open>state_dict\<close>.
\<close>

definition train_script ::
  "'o optimizer_step \<Rightarrow> 'o \<Rightarrow> library \<Rightarrow> path_state \<Rightarrow> nat
     \<Rightarrow> event list \<times> (error + (string \<times> tensor) list)" where
  "train_script step opt0 L data_dir rng =
     (case ImageFolder L data_dir of
        Inl e \<Rightarrow> ([UsingDevice], Inl e)
      | Inr ds \<Rightarrow>
          (case train_epochs step L ds NUM_EPOCHS 0
                  \<lparr>net = RetinaCNN_init L NUM_CLASSES, opt = opt0, gen = rng,
                   running_loss = 0, correct = 0, total = 0\<rparr>
                  [UsingDevice, Found (length (samples ds)) (length (classes ds)),
                   Starting NUM_EPOCHS] of
             (ev, Inl e) \<Rightarrow> (ev, Inl e)
           | (ev, Inr st) \<Rightarrow> (ev @ [Saved], Inr (state_dict (net st)))))"

section \<open>Notions used in the statements\<close>

text \<open>
  A module is well shaped for \<open>N\<close> classes when every parameter has the shape that
  \<open>__init__(N)\<close> gives it.
\<close>

definition well_shaped :: "nat \<Rightarrow> RetinaCNN \<Rightarrow> bool" where
  "well_shaped N m \<longleftrightarrow> (\<forall>name \<in> set param_names. shape (params m name) = param_shape N name)"

text \<open>Reading a field of a JSON object; an entry of \<open>top_predictions\<close>.\<close>

definition json_get :: "json \<Rightarrow> string \<Rightarrow> json option" where
  "json_get j key = (case j of JObj kvs \<Rightarrow> map_of kvs key | _ \<Rightarrow> None)"

definition json_keys :: "json \<Rightarrow> string list" where
  "json_keys j = (case j of JObj kvs \<Rightarrow> map fst kvs | _ \<Rightarrow> [])"

definition top_entry :: "string list \<Rightarrow> real \<times> nat \<Rightarrow> json" where
  "top_entry names p = JObj [(''class'', JStr (names ! snd p)), (''confidence'', JNum (fst p))]"

text \<open>
  The image files of a dataset directory: those below its class folders that torchvision
  accepts. The dataset is empty when there is none.
\<close>

definition image_files :: "library \<Rightarrow> path_state \<Rightarrow> nat list list" where
  "image_files L d =
     (case d of
        Directory entries \<Rightarrow> concat (map (class_samples L) [p \<leftarrow> entries. is_dir p])
      | _ \<Rightarrow> [])"

section \<open>A concrete environment\<close>

text \<open>
  A library, an upload and a family of checkpoints on which the definitions can be run: the
  image decoder accepts every non-empty upload, the resampling is constant, and
  \<open>torch.topk\<close> keeps ties in ascending order of index. The checkpoint
  \<open>demo_checkpoint ps\<close> has all weights zero and the logarithms of \<open>ps\<close> as the bias
  of the last layer, so that the logits of every image are those logarithms.
\<close>

definition demo_image :: image where
  "demo_image = \<lparr>height = 2, width = 3, pixel = (\<lambda>c y x. 128)\<rparr>"

definition demo_library :: library where
  "demo_library =
     \<lparr>topk = topk_ties_ascending,
      float_repr = (\<lambda>x. ''<float>''),
      exc_str = (\<lambda>e. ''<exception>''),
      image_open = (\<lambda>b. if b = [] then Inl UnidentifiedImageError else Inr demo_image),
      resample = (\<lambda>h w img c y x. 128),
      random_flip = (\<lambda>r img. img),
      random_rotation = (\<lambda>r deg img. img),
      keep_mask = (\<lambda>r idx. True),
      randperm = (\<lambda>r n. [0..<n]),
      init_param = (\<lambda>name sh idx. 0),
      is_image_file = (\<lambda>name. True)\<rparr>"

text \<open>An optimiser step that leaves the parameters as they are.\<close>

definition demo_step :: "unit optimizer_step" where
  "demo_step s m g images labels = (s, params m)"

definition demo_upload :: upload where
  "demo_upload = \<lparr>filename = ''fundus.png'', data = [137, 80, 78, 71]\<rparr>"

definition demo_param :: "real list \<Rightarrow> string \<Rightarrow> tensor" where
  "demo_param ps name =
     \<lparr>shape = param_shape (length ps) name,
      elem = (if name = ''fc2.bias''
              then (\<lambda>idx. case idx of [j] \<Rightarrow> ln (ps ! j) | _ \<Rightarrow> 0)
              else (\<lambda>idx. 0))\<rparr>"

definition demo_checkpoint :: "real list \<Rightarrow> (string \<times> tensor) list" where
  "demo_checkpoint ps = map (\<lambda>name. (name, demo_param ps name)) param_names"

definition demo_service :: "library \<Rightarrow> string list \<Rightarrow> real list \<Rightarrow> service" where
  "demo_service L names ps =
     \<lparr>class_names = names,
      model = \<lparr>params = (\<lambda>name. case map_of (demo_checkpoint ps) name of
                                    None \<Rightarrow> params (RetinaCNN_init L (length names)) name
                                  | Some t \<Rightarrow> t),
               training = False\<rparr>\<rparr>"

text \<open>The same library with a \<open>torch.topk\<close> that keeps ties in descending order of index.\<close>

definition tie_library :: library where
  "tie_library = demo_library\<lparr>topk := topk_ties_descending\<rparr>"

section \<open>Shapes through the layers\<close>

lemma conv2d_shape:
  assumes "shape w = [co, ci, 3, 3]" "shape x = [n, ci, h, wd]" "0 < h" "0 < wd"
  shows "\<exists>y. conv2d 1 1 w b x = Inr y \<and> shape y = [n, co, h, wd]"
  using assms by (simp add: conv2d_def Let_def)

lemma err_bind_Inr: "err_bind (Inr v) f = f v"
  by (simp add: err_bind_def)

lemma err_bind_Inl: "err_bind (Inl e) f = Inl e"
  by (simp add: err_bind_def)

lemma relu_shape: "shape (relu x) = shape x"
  by (simp add: relu_def)

lemma max_pool2d_shape:
  assumes "shape x = [n, c, h, wd]" "2 \<le> h" "2 \<le> wd"
  shows "\<exists>y. max_pool2d x = Inr y \<and> shape y = [n, c, h div 2, wd div 2]"
proof -
  have "(h - 2) div 2 + 1 = h div 2" "(wd - 2) div 2 + 1 = wd div 2"
    using assms(2,3) by (simp_all add: le_div_geq)
  with assms show ?thesis
    by (simp add: max_pool2d_def Let_def)
qed

lemma flatten_shape:
  assumes "shape x = n # rest"
  shows "\<exists>y. flatten x = Inr y \<and> shape y = [n, prod_list rest]"
  using assms by (simp add: flatten_def)

lemma linear_shape:
  assumes "shape w = [out, inp]" "shape x = [n, inp]"
  shows "\<exists>y. linear w b x = Inr y \<and> shape y = [n, out]"
  using assms by (simp add: linear_def Let_def)

lemma linear_Inr:
  assumes "linear w b x = Inr y"
  shows "shape y = [shape x ! 0, shape w ! 0]
       \<and> elem y [s, j] = elem b [j] + (\<Sum>k \<leftarrow> [0..<shape w ! 1]. elem x [s, k] * elem w [j, k])"
  using assms by (auto simp add: linear_def Let_def split: if_splits)

lemma dropout_shape: "shape (dropout L p t rng x) = shape x"
  by (simp add: dropout_def)

lemma well_shapedD:
  assumes "well_shaped N m"
  shows "shape (params m ''conv1.weight'') = [32, 3, 3, 3]"
    "shape (params m ''conv2.weight'') = [64, 32, 3, 3]"
    "shape (params m ''conv3.weight'') = [128, 64, 3, 3]"
    "shape (params m ''fc1.weight'') = [256, 100352]"
    "shape (params m ''fc2.weight'') = [N, 256]"
  using assms by (simp_all add: well_shaped_def param_names_def param_shape_def)

lemma forward_shape:
  assumes ws: "well_shaped N m" and x: "shape x = [n, 3, 224, 224]"
  shows "\<exists>y. forward L m rng x = Inr y \<and> shape y = [n, N]"
proof -
  note p = well_shapedD[OF ws]
  obtain c1 where c1: "conv2d 1 1 (params m ''conv1.weight'') (params m ''conv1.bias'') x = Inr c1"
    "shape c1 = [n, 32, 224, 224]"
    using conv2d_shape[OF p(1) x] by auto
  have "shape (relu c1) = [n, 32, 224, 224]" by (simp add: relu_shape c1)
  from max_pool2d_shape[OF this] obtain p1 where p1: "max_pool2d (relu c1) = Inr p1"
    "shape p1 = [n, 32, 112, 112]" by auto
  obtain c2 where c2: "conv2d 1 1 (params m ''conv2.weight'') (params m ''conv2.bias'') p1 = Inr c2"
    "shape c2 = [n, 64, 112, 112]"
    using conv2d_shape[OF p(2) p1(2)] by auto
  have "shape (relu c2) = [n, 64, 112, 112]" by (simp add: relu_shape c2)
  from max_pool2d_shape[OF this] obtain p2 where p2: "max_pool2d (relu c2) = Inr p2"
    "shape p2 = [n, 64, 56, 56]" by auto
  obtain c3 where c3: "conv2d 1 1 (params m ''conv3.weight'') (params m ''conv3.bias'') p2 = Inr c3"
    "shape c3 = [n, 128, 56, 56]"
    using conv2d_shape[OF p(3) p2(2)] by auto
  have "shape (relu c3) = [n, 128, 56, 56]" by (simp add: relu_shape c3)
  from max_pool2d_shape[OF this] obtain p3 where p3: "max_pool2d (relu c3) = Inr p3"
    "shape p3 = [n, 128, 28, 28]" by auto
  from flatten_shape[OF p3(2)] obtain fl where fl: "flatten p3 = Inr fl"
    "shape fl = [n, 100352]" by auto
  obtain h where h: "linear (params m ''fc1.weight'') (params m ''fc1.bias'') fl = Inr h"
    "shape h = [n, 256]"
    using linear_shape[OF p(4) fl(2)] by blast
  have d: "shape (dropout L (1 / 2) (training m) rng (relu h)) = [n, 256]"
    by (simp add: dropout_shape relu_shape h)
  obtain y where y: "linear (params m ''fc2.weight'') (params m ''fc2.bias'')
       (dropout L (1 / 2) (training m) rng (relu h)) = Inr y" "shape y = [n, N]"
    using linear_shape[OF p(5) d] by blast
  show ?thesis
    unfolding forward_def c1(1) p1(1) c2(1) p2(1) c3(1) p3(1) fl(1) h(1) err_bind_Inr
    using y by simp
qed

section \<open>Loading and start\<close>

lemma well_shaped_init: "well_shaped N (RetinaCNN_init L N)"
  by (simp add: well_shaped_def RetinaCNN_init_def)

lemma load_state_dict_Inr:
  assumes "load_state_dict m sd = Inr m'" and "name \<in> set param_names"
  shows "\<exists>t. map_of sd name = Some t \<and> shape t = shape (params m name) \<and> params m' name = t"
    and "training m' = training m"
proof -
  from assms(1) have
    a: "[name \<leftarrow> param_names. map_of sd name = None] = []" and
    c: "[name \<leftarrow> param_names. case map_of sd name of None \<Rightarrow> False
                                  | Some t \<Rightarrow> shape t \<noteq> shape (params m name)] = []" and
    m': "m' = m\<lparr>params := (\<lambda>name. case map_of sd name of None \<Rightarrow> params m name | Some t \<Rightarrow> t)\<rparr>"
    by (auto simp add: load_state_dict_def Let_def split: if_splits)
  from a assms(2) obtain t where t: "map_of sd name = Some t"
    by (auto simp add: filter_empty_conv)
  from c assms(2) t have "shape t = shape (params m name)"
    by (auto simp add: filter_empty_conv)
  with t m' show "\<exists>t. map_of sd name = Some t \<and> shape t = shape (params m name) \<and> params m' name = t"
    by simp
  from m' show "training m' = training m" by simp
qed

lemma load_state_dict_mismatch:
  assumes "name \<in> set param_names" "map_of sd name = Some t" "shape t \<noteq> shape (params m name)"
  shows "load_state_dict m sd = Inl RuntimeError"
proof -
  have "name \<in> set [name \<leftarrow> param_names. case map_of sd name of None \<Rightarrow> False
                                  | Some t \<Rightarrow> shape t \<noteq> shape (params m name)]"
    using assms by simp
  then have "[name \<leftarrow> param_names. case map_of sd name of None \<Rightarrow> False
                                  | Some t \<Rightarrow> shape t \<noteq> shape (params m name)] \<noteq> []"
    by (metis empty_iff empty_set)
  then show ?thesis
    by (simp add: load_state_dict_def Let_def)
qed

lemma init_shape: "shape (params (RetinaCNN_init L N) name) = param_shape N name"
  by (simp add: RetinaCNN_init_def)

lemma startup_Inr:
  assumes "startup L d loaded = Inr srv"
  shows "CLASS_NAMES d = Inr (class_names srv)"
    and "training (model srv) = False"
    and "well_shaped (length (class_names srv)) (model srv)"
    and "\<exists>sd. loaded = Inr sd \<and> (\<forall>name \<in> set param_names. map_of sd name = Some (params (model srv) name))"
proof -
  from assms obtain names sd m where
    n: "CLASS_NAMES d = Inr names" and l: "loaded = Inr sd" and
    m: "load_state_dict (RetinaCNN_init L (length names)) sd = Inr m" and
    s: "srv = \<lparr>class_names = names, model = eval_mode m\<rparr>"
    by (auto simp add: startup_def err_bind_def split: sum.splits)
  show "CLASS_NAMES d = Inr (class_names srv)" using n s by simp
  show "training (model srv) = False" using s by (simp add: eval_mode_def)
  have p: "\<forall>name \<in> set param_names. map_of sd name = Some (params m name)
              \<and> shape (params m name) = param_shape (length names) name"
    using load_state_dict_Inr(1)[OF m] by (auto simp add: init_shape)
  show "well_shaped (length (class_names srv)) (model srv)"
    using p s by (simp add: well_shaped_def eval_mode_def)
  show "\<exists>sd. loaded = Inr sd \<and> (\<forall>name \<in> set param_names. map_of sd name = Some (params (model srv) name))"
    using p s l by (simp add: eval_mode_def)
qed

lemma startup_mismatch:
  assumes "CLASS_NAMES d = Inr names" "name \<in> set param_names" "map_of sd name = Some t"
    "shape t \<noteq> param_shape (length names) name"
  shows "startup L d (Inr sd) = Inl RuntimeError"
proof -
  have "load_state_dict (RetinaCNN_init L (length names)) sd = Inl RuntimeError"
    using load_state_dict_mismatch[OF assms(2,3)] assms(4) by (simp add: init_shape)
  then show ?thesis
    by (simp add: startup_def err_bind_def assms(1))
qed

section \<open>Arg-max and softmax\<close>

lemma argmax_scan_spec:
  assumes "best < length pre" "pre ! best = v" "\<forall>j < length pre. pre ! j \<le> v"
    "\<forall>j < best. pre ! j < v" "i = length pre"
  shows "argmax_scan xs i best v < length (pre @ xs)
       \<and> (\<forall>j < length (pre @ xs). (pre @ xs) ! j \<le> (pre @ xs) ! argmax_scan xs i best v)
       \<and> (\<forall>j < argmax_scan xs i best v. (pre @ xs) ! j < (pre @ xs) ! argmax_scan xs i best v)"
  using assms
proof (induction xs arbitrary: pre best v i)
  case Nil
  then show ?case by simp
next
  case (Cons x xs)
  show ?case
  proof (cases "v < x")
    case True
    have "length pre < length (pre @ [x])" by simp
    moreover have "(pre @ [x]) ! length pre = x" by simp
    moreover have "\<forall>j < length (pre @ [x]). (pre @ [x]) ! j \<le> x"
      using Cons.prems(3) True by (auto simp add: nth_append less_Suc_eq)
    moreover have "\<forall>j < length pre. (pre @ [x]) ! j < x"
      using Cons.prems(3) True by (auto simp add: nth_append)
    moreover have "Suc i = length (pre @ [x])" using Cons.prems(5) by simp
    ultimately have "argmax_scan xs (Suc i) (length pre) x < length ((pre @ [x]) @ xs)
       \<and> (\<forall>j < length ((pre @ [x]) @ xs). ((pre @ [x]) @ xs) ! j \<le> ((pre @ [x]) @ xs) ! argmax_scan xs (Suc i) (length pre) x)
       \<and> (\<forall>j < argmax_scan xs (Suc i) (length pre) x. ((pre @ [x]) @ xs) ! j < ((pre @ [x]) @ xs) ! argmax_scan xs (Suc i) (length pre) x)"
      by (rule Cons.IH)
    then show ?thesis using True Cons.prems(5) by simp
  next
    case False
    have "best < length (pre @ [x])" using Cons.prems(1) by simp
    moreover have "(pre @ [x]) ! best = v" using Cons.prems(1,2) by (simp add: nth_append)
    moreover have "\<forall>j < length (pre @ [x]). (pre @ [x]) ! j \<le> v"
      using Cons.prems(3) False by (auto simp add: nth_append less_Suc_eq)
    moreover have "\<forall>j < best. (pre @ [x]) ! j < v"
      using Cons.prems(1,4) by (auto simp add: nth_append)
    moreover have "Suc i = length (pre @ [x])" using Cons.prems(5) by simp
    ultimately have "argmax_scan xs (Suc i) best v < length ((pre @ [x]) @ xs)
       \<and> (\<forall>j < length ((pre @ [x]) @ xs). ((pre @ [x]) @ xs) ! j \<le> ((pre @ [x]) @ xs) ! argmax_scan xs (Suc i) best v)
       \<and> (\<forall>j < argmax_scan xs (Suc i) best v. ((pre @ [x]) @ xs) ! j < ((pre @ [x]) @ xs) ! argmax_scan xs (Suc i) best v)"
      by (rule Cons.IH)
    then show ?thesis using False by simp
  qed
qed

lemma argmax_spec:
  assumes "xs \<noteq> []"
  shows "\<exists>k. argmax xs = Inr k \<and> k < length xs
       \<and> (\<forall>j < length xs. xs ! j \<le> xs ! k) \<and> (\<forall>j < k. xs ! j < xs ! k)"
proof -
  from assms obtain x rest where xs: "xs = x # rest" by (cases xs) auto
  have "argmax_scan rest 1 0 x < length ([x] @ rest)
       \<and> (\<forall>j < length ([x] @ rest). ([x] @ rest) ! j \<le> ([x] @ rest) ! argmax_scan rest 1 0 x)
       \<and> (\<forall>j < argmax_scan rest 1 0 x. ([x] @ rest) ! j < ([x] @ rest) ! argmax_scan rest 1 0 x)"
    by (rule argmax_scan_spec) simp_all
  then show ?thesis by (simp add: xs argmax_def)
qed

lemma argmax_Inr:
  assumes "argmax xs = Inr k"
  shows "k < length xs" "\<forall>j < length xs. xs ! j \<le> xs ! k" "\<forall>j < k. xs ! j < xs ! k"
proof -
  from assms have "xs \<noteq> []" by (auto simp add: argmax_def)
  from argmax_spec[OF this] assms show "k < length xs" "\<forall>j < length xs. xs ! j \<le> xs ! k"
    "\<forall>j < k. xs ! j < xs ! k" by auto
qed

lemma argmax_Nil: "argmax [] = Inl RuntimeError"
  by (simp add: argmax_def)

text \<open>
  The softmax over the reals: its entries are positive and at most 1 and, for at least one
  logit, they sum to exactly 1. The rounding of the float32 kernel of \<open>F.softmax\<close> is
  outside this model.
\<close>

lemma sum_exp_pos:
  assumes "xs \<noteq> []"
  shows "0 < (\<Sum>y \<leftarrow> xs. exp (y::real))"
  using assms
proof (induction xs)
  case Nil
  then show ?case by simp
next
  case (Cons a xs)
  have "0 \<le> (\<Sum>y \<leftarrow> xs. exp y)" by (rule sum_list_nonneg) auto
  moreover have "0 < exp a" by simp
  ultimately show ?case by (simp add: add_pos_nonneg)
qed

lemma softmax_length: "length (softmax xs) = length xs"
  by (simp add: softmax_def)

lemma softmax_range:
  assumes "p \<in> set (softmax xs)"
  shows "0 < p \<and> p \<le> 1"
proof -
  from assms obtain z where z: "z \<in> set xs" "p = exp z / (\<Sum>y \<leftarrow> xs. exp y)"
    by (auto simp add: softmax_def)
  then have ne: "xs \<noteq> []" by auto
  have pos: "0 < (\<Sum>y \<leftarrow> xs. exp y)" by (rule sum_exp_pos[OF ne])
  have "exp z \<in> set (map exp xs)" using z(1) by simp
  then have "exp z \<le> (\<Sum>y \<leftarrow> xs. exp y)"
    by (rule member_le_sum_list) auto
  with pos z(2) show ?thesis by simp
qed

lemma softmax_sum:
  assumes "xs \<noteq> []"
  shows "sum_list (softmax xs) = 1"
proof -
  have pos: "0 < (\<Sum>y \<leftarrow> xs. exp y)" by (rule sum_exp_pos[OF assms])
  have "sum_list (softmax xs) = (\<Sum>z \<leftarrow> xs. exp z * inverse (\<Sum>y \<leftarrow> xs. exp y))"
    by (simp add: softmax_def divide_inverse comp_def)
  also have "\<dots> = (\<Sum>z \<leftarrow> xs. exp z) * inverse (\<Sum>y \<leftarrow> xs. exp y)"
    by (rule sum_list_mult_const)
  also have "\<dots> = 1" using pos by simp
  finally show ?thesis .
qed

lemma softmax_ln:
  assumes "\<forall>p \<in> set ps. 0 < p" "sum_list ps = 1"
  shows "softmax (map ln ps) = (ps :: real list)"
proof -
  have "map exp (map ln ps) = ps"
    using assms(1) by (induction ps) auto
  then have s: "(\<Sum>y \<leftarrow> map ln ps. exp y) = 1"
    using assms(2) by (simp add: comp_def)
  have "map (\<lambda>z. exp z) (map ln ps) = ps" using \<open>map exp (map ln ps) = ps\<close> by simp
  then show ?thesis
    unfolding softmax_def s by simp
qed

section \<open>Functions that meet the contract of top-k\<close>

lemma is_topk_sort_take:
  fixes xs :: "real list"
  assumes d: "distinct is" and s: "set is = {..<length xs}" and k: "k \<le> length xs"
  shows "is_topk xs k (map (\<lambda>i. (xs ! i, i)) (take k (sort_key (\<lambda>i. - (xs ! i)) is)))"
proof -
  define f where "f = (\<lambda>i. - (xs ! i))"
  define srt where "srt = sort_key f is"
  define t where "t = take k srt"
  have len_is: "length is = length xs"
    using distinct_card[OF d] s by simp
  have len_t: "length t = k"
    using k len_is by (simp add: t_def srt_def)
  have dist_t: "distinct t"
    using d by (simp add: t_def srt_def)
  have set_srt: "set srt = {..<length xs}"
    using s by (simp add: srt_def)
  have sub_t: "set t \<subseteq> {..<length xs}"
    using set_take_subset[of k srt] set_srt by (simp add: t_def)
  have sorted_srt: "sorted (map f srt)"
    by (simp add: srt_def)
  have split: "srt = t @ drop k srt"
    by (simp add: t_def)
  have "sorted (map f t @ map f (drop k srt))"
    using sorted_srt split by (metis map_append)
  then have st: "sorted (map f t)" and cross: "\<forall>a \<in> set t. \<forall>b \<in> set (drop k srt). f a \<le> f b"
    by (auto simp add: sorted_append)
  have desc: "sorted_wrt (\<lambda>a b. b \<le> a) (map (\<lambda>i. xs ! i) t)"
    using st by (simp add: sorted_wrt_map f_def)
  have rest: "\<forall>j \<in> set [0..<length xs]. j \<in> set t \<or> (\<forall>i \<in> set t. xs ! j \<le> xs ! i)"
  proof
    fix j assume "j \<in> set [0..<length xs]"
    then have "j \<in> set srt" using set_srt by simp
    then have "j \<in> set t \<or> j \<in> set (drop k srt)"
      using split by (metis Un_iff set_append)
    then show "j \<in> set t \<or> (\<forall>i \<in> set t. xs ! j \<le> xs ! i)"
      using cross by (auto simp add: f_def)
  qed
  have "is_topk xs k (map (\<lambda>i. (xs ! i, i)) t)"
    unfolding is_topk_def
    using len_t dist_t sub_t desc rest by (auto simp add: comp_def)
  then show ?thesis by (simp add: t_def srt_def f_def)
qed

lemma topk_ties_ascending_contract: "topk_contract topk_ties_ascending"
  unfolding topk_contract_def topk_ties_ascending_def
  by (intro allI impI is_topk_sort_take) auto

lemma topk_ties_descending_contract: "topk_contract topk_ties_descending"
  unfolding topk_contract_def topk_ties_descending_def
  by (intro allI impI is_topk_sort_take) auto

section \<open>The responses\<close>

lemma err_map_ok:
  assumes "\<forall>x \<in> set xs. f x = Inr (g x)"
  shows "err_map f xs = Inr (map g xs)"
  using assms by (induction xs) auto

lemma getitem_ok: "i < length xs \<Longrightarrow> getitem xs i = Inr (xs ! i)"
  by (simp add: getitem_def)

lemma respond_ok:
  assumes a: "argmax probs = Inr i" and len: "length probs = length names"
    and tk: "is_topk probs (min 3 (length names)) (topk L probs (min 3 (length names)))"
  shows "respond L names fname now probs =
     Inr (JObj [(''filename'', JStr fname),
                (''prediction'', JStr (if probs ! i < 65 / 100 then ''uncertain'' else names ! i)),
                (''confidence'', JNum (py_round (probs ! i) 4)),
                (''top_predictions'',
                   JArr (map (top_entry names) (topk L probs (min 3 (length names))))),
                (''message'', JStr (if probs ! i < 65 / 100 then uncertain_message
                                    else detected_message L (names ! i) (probs ! i))),
                (''timestamp'', JStr now)])"
proof -
  have i: "i < length probs" using argmax_Inr(1)[OF a] .
  have g1: "getitem probs i = Inr (probs ! i)" using i by (rule getitem_ok)
  have g2: "getitem names i = Inr (names ! i)" using i len by (simp add: getitem_ok)
  have t: "torch_topk L probs (min 3 (length names)) = Inr (topk L probs (min 3 (length names)))"
    using len by (simp add: torch_topk_def)
  have "\<forall>p \<in> set (topk L probs (min 3 (length names))).
          err_bind (getitem names (snd p))
            (\<lambda>c. Inr (JObj [(''class'', JStr c), (''confidence'', JNum (fst p))]))
          = Inr (top_entry names p)"
    using tk len by (auto simp add: is_topk_def getitem_ok err_bind_Inr top_entry_def)
  then have m: "err_map (\<lambda>p. err_bind (getitem names (snd p))
            (\<lambda>c. Inr (JObj [(''class'', JStr c), (''confidence'', JNum (fst p))])))
          (topk L probs (min 3 (length names)))
        = Inr (map (top_entry names) (topk L probs (min 3 (length names))))"
    by (rule err_map_ok)
  show ?thesis
    unfolding respond_def a g1 g2 t m err_bind_Inr
    by (simp add: Let_def confidence_threshold_def)
qed

lemma respond_app_ok:
  assumes a: "argmax probs = Inr i" and len: "length probs = length names"
  shows "respond_app names fname utcnow probs =
     Inr (JObj [(''filename'', JStr fname),
                (''prediction'', JStr (names ! i)),
                (''confidence'', JNum (py_round (probs ! i) 4)),
                (''timestamp'', JStr utcnow)])"
proof -
  have i: "i < length probs" using argmax_Inr(1)[OF a] .
  have g1: "getitem probs i = Inr (probs ! i)" using i by (rule getitem_ok)
  have g2: "getitem names i = Inr (names ! i)" using i len by (simp add: getitem_ok)
  show ?thesis
    unfolding respond_app_def a g1 g2 err_bind_Inr by simp
qed

lemma transform_shape: "shape (unsqueeze0 (transform L img)) = [1, 3, 224, 224]"
  by (simp add: unsqueeze0_def transform_def Normalize_def ToTensor_def Resize_def)

lemma forward_eval_independent:
  assumes "training m = False"
  shows "forward L m rng x = forward L m rng' x"
  using assms by (simp add: forward_def dropout_def)

lemma infer_Inr:
  assumes st: "startup L d loaded = Inr srv" and inf: "infer L srv rng file = Inr probs"
  shows "length probs = length (class_names srv)"
proof -
  from inf obtain img outputs where
    img: "image_open L (data file) = Inr img" and
    f: "forward L (model srv) rng (unsqueeze0 (transform L img)) = Inr outputs" and
    p: "softmax_row0 outputs = Inr probs"
    by (auto simp add: infer_def err_bind_def split: sum.splits)
  from forward_shape[OF startup_Inr(3)[OF st] transform_shape[of L img], of L rng] f
  have sh: "shape outputs = [1, length (class_names srv)]" by auto
  from p sh show ?thesis
    by (auto simp add: softmax_row0_def row_def softmax_length split: if_splits)
qed

lemma infer_total:
  assumes st: "startup L d loaded = Inr srv" and img: "image_open L (data file) = Inr img"
  shows "\<exists>probs. infer L srv rng file = Inr probs"
proof -
  from forward_shape[OF startup_Inr(3)[OF st] transform_shape[of L img], of L rng]
  obtain outputs where f: "forward L (model srv) rng (unsqueeze0 (transform L img)) = Inr outputs"
    and sh: "shape outputs = [1, length (class_names srv)]" by auto
  show ?thesis
    unfolding infer_def img err_bind_Inr f
    by (simp add: softmax_row0_def sh)
qed

lemma infer_rng:
  assumes st: "startup L d loaded = Inr srv"
  shows "infer L srv rng file = infer L srv rng' file"
  unfolding infer_def
  using forward_eval_independent[OF startup_Inr(2)[OF st]] by metis

section \<open>Running the concrete environment\<close>

lemma map_of_demo_checkpoint:
  "map_of (demo_checkpoint ps) name =
     (if name \<in> set param_names then Some (demo_param ps name) else None)"
  by (simp add: demo_checkpoint_def map_of_map_restrict restrict_map_def)

lemma load_demo_checkpoint:
  "load_state_dict (RetinaCNN_init L (length ps)) (demo_checkpoint ps) =
     Inr ((RetinaCNN_init L (length ps))
            \<lparr>params := (\<lambda>name. case map_of (demo_checkpoint ps) name of
                                   None \<Rightarrow> params (RetinaCNN_init L (length ps)) name
                                 | Some t \<Rightarrow> t)\<rparr>)"
proof -
  have a: "[name \<leftarrow> param_names. map_of (demo_checkpoint ps) name = None] = []"
    by (simp add: filter_empty_conv map_of_demo_checkpoint)
  have b: "[name \<leftarrow> map fst (demo_checkpoint ps). name \<notin> set param_names] = []"
    by (simp add: filter_empty_conv demo_checkpoint_def comp_def)
  have c: "[name \<leftarrow> param_names.
              case map_of (demo_checkpoint ps) name of
                None \<Rightarrow> False
              | Some t \<Rightarrow> shape t \<noteq> shape (params (RetinaCNN_init L (length ps)) name)] = []"
    by (simp add: filter_empty_conv map_of_demo_checkpoint init_shape demo_param_def)
  show ?thesis
    unfolding load_state_dict_def a b c by (simp add: Let_def)
qed

lemma demo_startup:
  assumes "CLASS_NAMES d = Inr names" "length ps = length names"
  shows "startup L d (Inr (demo_checkpoint ps)) = Inr (demo_service L names ps)"
proof -
  have ld: "load_state_dict (RetinaCNN_init L (length names)) (demo_checkpoint ps) =
     Inr ((RetinaCNN_init L (length names))
            \<lparr>params := (\<lambda>name. case map_of (demo_checkpoint ps) name of
                                   None \<Rightarrow> params (RetinaCNN_init L (length names)) name
                                 | Some t \<Rightarrow> t)\<rparr>)"
    unfolding assms(2)[symmetric] by (rule load_demo_checkpoint)
  show ?thesis
    unfolding startup_def assms(1) err_bind_Inr ld
    by (simp add: demo_service_def eval_mode_def RetinaCNN_init_def)
qed

lemma class_names_absent: "CLASS_NAMES Absent = Inr default_classes"
  by (simp add: CLASS_NAMES_def)

lemma err_bind_eq_Inr: "err_bind r f = Inr y \<longleftrightarrow> (\<exists>v. r = Inr v \<and> f v = Inr y)"
  by (cases r) (simp_all add: err_bind_def)

lemma forward_last:
  assumes "forward L m rng x = Inr y"
  shows "\<exists>z. linear (params m ''fc2.weight'') (params m ''fc2.bias'') z = Inr y"
  using assms
  apply (simp only: forward_def err_bind_eq_Inr)
  apply (elim exE conjE)
  apply (rule exI)
  apply assumption
  done

lemma map_nth_fun: "map (\<lambda>j. f (ps ! j)) [0..<length ps] = map f ps"
  by (rule nth_equalityI) simp_all

lemma demo_infer_softmax:
  assumes names: "CLASS_NAMES d = Inr names" and len: "length ps = length names"
    and img: "image_open L (data demo_upload) = Inr img"
  shows "infer L (demo_service L names ps) rng demo_upload = Inr (softmax (map ln ps))"
proof -
  let ?srv = "demo_service L names ps"
  have st: "startup L d (Inr (demo_checkpoint ps)) = Inr ?srv"
    by (rule demo_startup[OF names len])
  have cn: "class_names ?srv = names" by (simp add: demo_service_def)
  from forward_shape[OF startup_Inr(3)[OF st] transform_shape[of L img], of L rng]
  obtain y where f: "forward L (model ?srv) rng (unsqueeze0 (transform L img)) = Inr y"
    and sh: "shape y = [1, length names]" by (auto simp add: cn)
  from forward_last[OF f] obtain z where
    z: "linear (params (model ?srv) ''fc2.weight'') (params (model ?srv) ''fc2.bias'') z = Inr y"
    by blast
  have w: "elem (params (model ?srv) ''fc2.weight'') = (\<lambda>idx. 0)"
    by (simp add: demo_service_def map_of_demo_checkpoint param_names_def demo_param_def)
  have b: "elem (params (model ?srv) ''fc2.bias'') [j] = ln (ps ! j)" for j
    by (simp add: demo_service_def map_of_demo_checkpoint param_names_def demo_param_def)
  have e: "elem y [0, j] = ln (ps ! j)" for j
    using linear_Inr[OF z, of 0 j] by (simp add: w b)
  have "row y 0 = map ln ps"
    unfolding row_def sh using e len map_nth_fun[of ln ps] by simp
  then have "softmax_row0 y = Inr (softmax (map ln ps))"
    by (simp add: softmax_row0_def sh)
  then show ?thesis
    unfolding infer_def img err_bind_Inr f by simp
qed

lemma demo_image_open: "image_open demo_library (data demo_upload) = Inr demo_image"
  by (simp add: demo_library_def demo_upload_def)

lemma tie_image_open: "image_open tie_library (data demo_upload) = Inr demo_image"
  by (simp add: tie_library_def demo_library_def demo_upload_def)

lemma demo_infer:
  assumes names: "CLASS_NAMES d = Inr names" and len: "length ps = length names"
    and img: "image_open L (data demo_upload) = Inr img"
    and pos: "\<forall>p \<in> set ps. 0 < p" and one: "sum_list ps = 1"
  shows "infer L (demo_service L names ps) rng demo_upload = Inr ps"
  using demo_infer_softmax[OF names len img] softmax_ln[OF pos one] by simp

section \<open>The network and the checkpoint\<close>

text \<open>
  C6. For every module whose parameters have the shapes that \<open>__init__(N)\<close> gives them,
  whatever their values, and every batch of \<open>n\<close> input tensors of shape 3 x 224 x 224,
  \<open>forward\<close> raises nothing and returns logits of shape \<open>(n, N)\<close>: every row has
  length exactly \<open>N\<close>. Nothing in the shape depends on the elements of the input, on the
  mode or on the random generator. (\<open>startup_Inr\<close> shows that the module of a running
  service is well shaped for the length of \<open>CLASS_NAMES\<close>, \<open>well_shaped_init\<close> that a
  fresh module is.)
\<close>

theorem forward_logits_length:
  assumes "well_shaped N m" and "shape x = [n, 3, 224, 224]"
  shows "\<exists>y. forward L m rng x = Inr y \<and> shape y = [n, N] \<and> (\<forall>s. length (row y s) = N)"
proof -
  from forward_shape[OF assms] obtain y where "forward L m rng x = Inr y" "shape y = [n, N]"
    by blast
  then show ?thesis by (simp add: row_def)
qed

text \<open>
  C6 at the service started from the four default classes and one resized image.
\<close>

theorem forward_logits_length_witness:
  "well_shaped (length default_classes)
     (model (demo_service demo_library default_classes [7 / 10, 1 / 10, 12 / 100, 8 / 100]))
   \<and> shape (unsqueeze0 (transform demo_library demo_image)) = [1, 3, 224, 224]
   \<and> (\<exists>y. forward demo_library
             (model (demo_service demo_library default_classes [7 / 10, 1 / 10, 12 / 100, 8 / 100])) 0
             (unsqueeze0 (transform demo_library demo_image)) = Inr y
          \<and> shape y = [1, 4] \<and> length (row y 0) = 4)"
proof -
  have st: "startup demo_library Absent (Inr (demo_checkpoint [7 / 10, 1 / 10, 12 / 100, 8 / 100]))
      = Inr (demo_service demo_library default_classes [7 / 10, 1 / 10, 12 / 100, 8 / 100])"
    by (rule demo_startup[OF class_names_absent]) (simp add: default_classes_def)
  have ws: "well_shaped (length default_classes)
     (model (demo_service demo_library default_classes [7 / 10, 1 / 10, 12 / 100, 8 / 100]))"
    using startup_Inr(3)[OF st] by (simp add: demo_service_def)
  have sh: "shape (unsqueeze0 (transform demo_library demo_image)) = [1, 3, 224, 224]"
    by (rule transform_shape)
  from forward_logits_length[OF ws sh, of demo_library 0] ws sh
  show ?thesis by (auto simp add: default_classes_def)
qed

lemma load_state_dict_missing:
  assumes "name \<in> set param_names" "map_of sd name = None"
  shows "load_state_dict m sd = Inl RuntimeError"
proof -
  have "name \<in> set [name \<leftarrow> param_names. map_of sd name = None]"
    using assms by simp
  then have "[name \<leftarrow> param_names. map_of sd name = None] \<noteq> []"
    by (metis empty_iff empty_set)
  then show ?thesis
    by (simp add: load_state_dict_def Let_def)
qed

text \<open>
  C7. If some parameter of the architecture for \<open>length CLASS_NAMES\<close> classes is missing
  from the checkpoint, or has another shape there (in particular \<open>fc2.weight\<close> with another
  number of rows), the start of the server ends with the \<open>RuntimeError\<close> of
  \<open>load_state_dict\<close> and no service exists. When the start succeeds, every parameter of
  the module is the tensor stored in the checkpoint under its name, unchanged, and has the
  shape of the architecture: nothing is truncated or reshaped.
\<close>

theorem checkpoint_mismatch_fatal:
  "(CLASS_NAMES d = Inr names \<and> name \<in> set param_names
      \<and> (case map_of sd name of
            None \<Rightarrow> True
          | Some t \<Rightarrow> shape t \<noteq> param_shape (length names) name)
      \<longrightarrow> startup L d (Inr sd) = Inl RuntimeError)
   \<and> (startup L d (Inr sd) = Inr srv
      \<longrightarrow> (\<forall>name \<in> set param_names.
             map_of sd name = Some (params (model srv) name)
           \<and> shape (params (model srv) name) = param_shape (length (class_names srv)) name))"
proof (intro conjI impI)
  assume h: "CLASS_NAMES d = Inr names \<and> name \<in> set param_names
      \<and> (case map_of sd name of
            None \<Rightarrow> True
          | Some t \<Rightarrow> shape t \<noteq> param_shape (length names) name)"
  show "startup L d (Inr sd) = Inl RuntimeError"
  proof (cases "map_of sd name")
    case None
    with h have "load_state_dict (RetinaCNN_init L (length names)) sd = Inl RuntimeError"
      using load_state_dict_missing[of name sd] by simp
    with h show ?thesis by (simp add: startup_def err_bind_def)
  next
    case (Some t)
    with h show ?thesis using startup_mismatch[of d names name sd t L] by simp
  qed
next
  assume st: "startup L d (Inr sd) = Inr srv"
  from startup_Inr(4)[OF st] have a: "\<forall>name \<in> set param_names.
      map_of sd name = Some (params (model srv) name)" by simp
  from startup_Inr(3)[OF st] have b: "\<forall>name \<in> set param_names.
      shape (params (model srv) name) = param_shape (length (class_names srv)) name"
    by (simp add: well_shaped_def)
  from a b show "\<forall>name \<in> set param_names.
             map_of sd name = Some (params (model srv) name)
           \<and> shape (params (model srv) name) = param_shape (length (class_names srv)) name"
    by simp
qed

text \<open>
  C7 at a checkpoint trained for four classes: with three class directories the start
  fails, with the four default classes it succeeds and \<open>fc2.weight\<close> is the stored tensor.
\<close>

theorem checkpoint_mismatch_fatal_witness:
  "CLASS_NAMES (Directory [Dir ''cataract'' [], Dir ''glaucoma'' [], Dir ''normal'' []])
     = Inr [''cataract'', ''glaucoma'', ''normal'']
   \<and> ''fc2.weight'' \<in> set param_names
   \<and> map_of (demo_checkpoint [7 / 10, 1 / 10, 12 / 100, 8 / 100]) ''fc2.weight''
       = Some (demo_param [7 / 10, 1 / 10, 12 / 100, 8 / 100] ''fc2.weight'')
   \<and> shape (demo_param [7 / 10, 1 / 10, 12 / 100, 8 / 100] ''fc2.weight'') = [4, 256]
   \<and> param_shape (length [''cataract'', ''glaucoma'', ''normal'']) ''fc2.weight'' = [3, 256]
   \<and> startup demo_library
        (Directory [Dir ''cataract'' [], Dir ''glaucoma'' [], Dir ''normal'' []])
        (Inr (demo_checkpoint [7 / 10, 1 / 10, 12 / 100, 8 / 100])) = Inl RuntimeError
   \<and> startup demo_library Absent (Inr (demo_checkpoint [7 / 10, 1 / 10, 12 / 100, 8 / 100]))
       = Inr (demo_service demo_library default_classes [7 / 10, 1 / 10, 12 / 100, 8 / 100])
   \<and> map_of (demo_checkpoint [7 / 10, 1 / 10, 12 / 100, 8 / 100]) ''fc2.weight''
       = Some (params (model (demo_service demo_library default_classes [7 / 10, 1 / 10, 12 / 100, 8 / 100]))
                 ''fc2.weight'')
   \<and> shape (params (model (demo_service demo_library default_classes [7 / 10, 1 / 10, 12 / 100, 8 / 100]))
                 ''fc2.weight'') = [4, 256]"
proof -
  let ?ps = "[7 / 10, 1 / 10, 12 / 100, 8 / 100] :: real list"
  let ?d = "Directory [Dir ''cataract'' [], Dir ''glaucoma'' [], Dir ''normal'' []]"
  have n: "CLASS_NAMES ?d = Inr [''cataract'', ''glaucoma'', ''normal'']"
    by (simp add: CLASS_NAMES_def)
  have k: "''fc2.weight'' \<in> set param_names" by (simp add: param_names_def)
  have m: "map_of (demo_checkpoint ?ps) ''fc2.weight'' = Some (demo_param ?ps ''fc2.weight'')"
    using k by (simp add: map_of_demo_checkpoint)
  have s4: "shape (demo_param ?ps ''fc2.weight'') = [4, 256]"
    by (simp add: demo_param_def param_shape_def)
  have s3: "param_shape (length [''cataract'', ''glaucoma'', ''normal'']) ''fc2.weight'' = [3, 256]"
    by (simp add: param_shape_def)
  have st: "startup demo_library Absent (Inr (demo_checkpoint ?ps))
      = Inr (demo_service demo_library default_classes ?ps)"
    by (rule demo_startup[OF class_names_absent]) (simp add: default_classes_def)
  have bad: "startup demo_library ?d (Inr (demo_checkpoint ?ps)) = Inl RuntimeError"
    using checkpoint_mismatch_fatal[of ?d "[''cataract'', ''glaucoma'', ''normal'']"
        "''fc2.weight''" "demo_checkpoint ?ps" demo_library] n k m s4 s3
    by simp
  have good: "map_of (demo_checkpoint ?ps) ''fc2.weight''
       = Some (params (model (demo_service demo_library default_classes ?ps)) ''fc2.weight'')
     \<and> shape (params (model (demo_service demo_library default_classes ?ps)) ''fc2.weight'')
       = param_shape (length (class_names (demo_service demo_library default_classes ?ps))) ''fc2.weight''"
    using checkpoint_mismatch_fatal[of Absent default_classes "''fc2.weight''"
        "demo_checkpoint ?ps" demo_library "demo_service demo_library default_classes ?ps"] st k
    by blast
  have s4': "param_shape (length (class_names (demo_service demo_library default_classes ?ps))) ''fc2.weight''
      = [4, 256]"
    by (simp add: demo_service_def default_classes_def param_shape_def)
  from n k m s4 s3 bad st good s4' show ?thesis by simp
qed

section \<open>The confidence gate\<close>

lemma predict_ok:
  assumes st: "startup L d loaded = Inr srv" and tk: "topk_contract (topk L)"
    and inf: "infer L srv rng file = Inr probs" and a: "argmax probs = Inr i"
  shows "predict L srv rng now file =
     \<lparr>status_code = 200,
      content = JObj [(''filename'', JStr (filename file)),
                (''prediction'',
                   JStr (if probs ! i < 65 / 100 then ''uncertain'' else class_names srv ! i)),
                (''confidence'', JNum (py_round (probs ! i) 4)),
                (''top_predictions'',
                   JArr (map (top_entry (class_names srv))
                          (topk L probs (min 3 (length (class_names srv)))))),
                (''message'', JStr (if probs ! i < 65 / 100 then uncertain_message
                                    else detected_message L (class_names srv ! i) (probs ! i))),
                (''timestamp'', JStr now)]\<rparr>"
    and "is_topk probs (min 3 (length (class_names srv)))
           (topk L probs (min 3 (length (class_names srv))))"
    and "length probs = length (class_names srv)"
proof -
  show len: "length probs = length (class_names srv)" by (rule infer_Inr[OF st inf])
  show t: "is_topk probs (min 3 (length (class_names srv)))
           (topk L probs (min 3 (length (class_names srv))))"
    using tk len by (simp add: topk_contract_def)
  show "predict L srv rng now file =
     \<lparr>status_code = 200,
      content = JObj [(''filename'', JStr (filename file)),
                (''prediction'',
                   JStr (if probs ! i < 65 / 100 then ''uncertain'' else class_names srv ! i)),
                (''confidence'', JNum (py_round (probs ! i) 4)),
                (''top_predictions'',
                   JArr (map (top_entry (class_names srv))
                          (topk L probs (min 3 (length (class_names srv)))))),
                (''message'', JStr (if probs ! i < 65 / 100 then uncertain_message
                                    else detected_message L (class_names srv ! i) (probs ! i))),
                (''timestamp'', JStr now)]\<rparr>"
    unfolding predict_def inf err_bind_Inr respond_ok[OF a len t] by simp
qed

text \<open>
  C1. When the service has started, \<open>torch.topk\<close> meets its contract and the inference
  on the upload returns a non-empty vector of probabilities, \<open>predict\<close> answers 200; with
  \<open>i\<close> the arg-max: if its probability is strictly below 0.65 the field
  \<open>prediction\<close> is "uncertain" and \<open>message\<close> is the fixed explanatory text; if it is
  0.65 or more (0.65 itself included) \<open>prediction\<close> is the label of class \<open>i\<close> and
  \<open>message\<close> states that label and the percentage rounded to two digits.
\<close>

theorem confidence_gate:
  assumes st: "startup L d loaded = Inr srv" and tk: "topk_contract (topk L)"
    and inf: "infer L srv rng file = Inr probs" and ne: "probs \<noteq> []"
  shows "\<exists>i. argmax probs = Inr i \<and> i < length probs
     \<and> (\<forall>j < length probs. probs ! j \<le> probs ! i)
     \<and> status_code (predict L srv rng now file) = 200
     \<and> (probs ! i < 65 / 100 \<longrightarrow>
          json_get (content (predict L srv rng now file)) ''prediction''
            = Some (JStr ''uncertain'')
        \<and> json_get (content (predict L srv rng now file)) ''message''
            = Some (JStr ''Image does not appear to contain a recognizable retina pattern.''))
     \<and> (65 / 100 \<le> probs ! i \<longrightarrow>
          json_get (content (predict L srv rng now file)) ''prediction''
            = Some (JStr (class_names srv ! i))
        \<and> json_get (content (predict L srv rng now file)) ''message''
            = Some (JStr (''Detected '' @ class_names srv ! i @ '' with ''
                          @ float_repr L (py_round (probs ! i * 100) 2) @ ''% confidence.'')))"
proof -
  from argmax_spec[OF ne] obtain i where a: "argmax probs = Inr i" and i: "i < length probs"
    and mx: "\<forall>j < length probs. probs ! j \<le> probs ! i" by blast
  note p = predict_ok(1)[OF st tk inf a, of now]
  have s: "status_code (predict L srv rng now file) = 200"
    unfolding p by simp
  have lo: "json_get (content (predict L srv rng now file)) ''prediction''
            = Some (JStr ''uncertain'')
        \<and> json_get (content (predict L srv rng now file)) ''message''
            = Some (JStr ''Image does not appear to contain a recognizable retina pattern.'')"
    if "probs ! i < 65 / 100"
    unfolding p using that by (simp add: json_get_def uncertain_message_def)
  have hi: "json_get (content (predict L srv rng now file)) ''prediction''
            = Some (JStr (class_names srv ! i))
        \<and> json_get (content (predict L srv rng now file)) ''message''
            = Some (JStr (''Detected '' @ class_names srv ! i @ '' with ''
                          @ float_repr L (py_round (probs ! i * 100) 2) @ ''% confidence.''))"
    if "65 / 100 \<le> probs ! i"
    unfolding p using that by (simp add: json_get_def detected_message_def)
  from a i mx s lo hi show ?thesis by blast
qed

lemma demo_topk_contract: "topk_contract (topk demo_library)"
  using topk_ties_ascending_contract by (simp add: demo_library_def)

lemma tie_topk_contract: "topk_contract (topk tie_library)"
  using topk_ties_descending_contract by (simp add: tie_library_def)

text \<open>
  C1 at a top probability of exactly 0.65 (reported as cataract) and at a top probability
  of 0.40 (reported as uncertain).
\<close>

theorem confidence_gate_witness:
  "startup demo_library Absent (Inr (demo_checkpoint [65 / 100, 15 / 100, 12 / 100, 8 / 100]))
     = Inr (demo_service demo_library default_classes [65 / 100, 15 / 100, 12 / 100, 8 / 100])
   \<and> topk_contract (topk demo_library)
   \<and> infer demo_library
        (demo_service demo_library default_classes [65 / 100, 15 / 100, 12 / 100, 8 / 100])
        0 demo_upload = Inr [65 / 100, 15 / 100, 12 / 100, 8 / 100]
   \<and> argmax [65 / 100, 15 / 100, 12 / 100, 8 / 100] = Inr 0
   \<and> (65 / 100 :: real) \<le> [65 / 100, 15 / 100, 12 / 100, 8 / 100] ! 0
   \<and> json_get (content (predict demo_library
        (demo_service demo_library default_classes [65 / 100, 15 / 100, 12 / 100, 8 / 100])
        0 ''2025-01-01T12:00:00'' demo_upload)) ''prediction'' = Some (JStr ''cataract'')
   \<and> json_get (content (predict demo_library
        (demo_service demo_library default_classes [65 / 100, 15 / 100, 12 / 100, 8 / 100])
        0 ''2025-01-01T12:00:00'' demo_upload)) ''message''
       = Some (JStr ''Detected cataract with <float>% confidence.'')
   \<and> startup demo_library Absent (Inr (demo_checkpoint [40 / 100, 35 / 100, 15 / 100, 10 / 100]))
     = Inr (demo_service demo_library default_classes [40 / 100, 35 / 100, 15 / 100, 10 / 100])
   \<and> infer demo_library
        (demo_service demo_library default_classes [40 / 100, 35 / 100, 15 / 100, 10 / 100])
        0 demo_upload = Inr [40 / 100, 35 / 100, 15 / 100, 10 / 100]
   \<and> argmax [40 / 100, 35 / 100, 15 / 100, 10 / 100] = Inr 0
   \<and> [40 / 100, 35 / 100, 15 / 100, 10 / 100] ! 0 < (65 / 100 :: real)
   \<and> json_get (content (predict demo_library
        (demo_service demo_library default_classes [40 / 100, 35 / 100, 15 / 100, 10 / 100])
        0 ''2025-01-01T12:00:00'' demo_upload)) ''prediction'' = Some (JStr ''uncertain'')
   \<and> json_get (content (predict demo_library
        (demo_service demo_library default_classes [40 / 100, 35 / 100, 15 / 100, 10 / 100])
        0 ''2025-01-01T12:00:00'' demo_upload)) ''message''
       = Some (JStr ''Image does not appear to contain a recognizable retina pattern.'')"
proof -
  let ?hi = "[65 / 100, 15 / 100, 12 / 100, 8 / 100] :: real list"
  let ?lo = "[40 / 100, 35 / 100, 15 / 100, 10 / 100] :: real list"
  let ?now = "''2025-01-01T12:00:00''"
  have st_hi: "startup demo_library Absent (Inr (demo_checkpoint ?hi))
      = Inr (demo_service demo_library default_classes ?hi)"
    by (rule demo_startup[OF class_names_absent]) (simp add: default_classes_def)
  have st_lo: "startup demo_library Absent (Inr (demo_checkpoint ?lo))
      = Inr (demo_service demo_library default_classes ?lo)"
    by (rule demo_startup[OF class_names_absent]) (simp add: default_classes_def)
  have inf_hi: "infer demo_library (demo_service demo_library default_classes ?hi) 0 demo_upload
      = Inr ?hi"
    by (rule demo_infer[OF class_names_absent _ demo_image_open]) (simp_all add: default_classes_def)
  have inf_lo: "infer demo_library (demo_service demo_library default_classes ?lo) 0 demo_upload
      = Inr ?lo"
    by (rule demo_infer[OF class_names_absent _ demo_image_open]) (simp_all add: default_classes_def)
  have a_hi: "argmax ?hi = Inr 0" by (simp add: argmax_def)
  have a_lo: "argmax ?lo = Inr 0" by (simp add: argmax_def)
  have cn: "class_names (demo_service demo_library default_classes ps) ! 0 = ''cataract''" for ps
    by (simp add: demo_service_def default_classes_def)
  have fr: "float_repr demo_library x = ''<float>''" for x
    by (simp add: demo_library_def)
  from confidence_gate[OF st_hi demo_topk_contract inf_hi, of ?now] a_hi
  have hi: "json_get (content (predict demo_library
        (demo_service demo_library default_classes ?hi) 0 ?now demo_upload)) ''prediction''
       = Some (JStr ''cataract'')
     \<and> json_get (content (predict demo_library
        (demo_service demo_library default_classes ?hi) 0 ?now demo_upload)) ''message''
       = Some (JStr ''Detected cataract with <float>% confidence.'')"
    by (simp add: cn fr)
  from confidence_gate[OF st_lo demo_topk_contract inf_lo, of ?now] a_lo
  have lo: "json_get (content (predict demo_library
        (demo_service demo_library default_classes ?lo) 0 ?now demo_upload)) ''prediction''
       = Some (JStr ''uncertain'')
     \<and> json_get (content (predict demo_library
        (demo_service demo_library default_classes ?lo) 0 ?now demo_upload)) ''message''
       = Some (JStr ''Image does not appear to contain a recognizable retina pattern.'')"
    by simp
  from st_hi st_lo inf_hi inf_lo a_hi a_lo hi lo demo_topk_contract show ?thesis by simp
qed

section \<open>The top-k list\<close>

lemma is_topk_head:
  assumes tk: "is_topk xs k ranked" and k: "0 < k"
    and i: "i < length xs" and mx: "\<forall>j < length xs. xs ! j \<le> xs ! i"
  shows "fst (ranked ! 0) = xs ! i"
    and "(\<forall>j < length xs. j \<noteq> i \<longrightarrow> xs ! j < xs ! i) \<Longrightarrow> snd (ranked ! 0) = i"
proof -
  from tk k have len: "0 < length ranked" by (simp add: is_topk_def)
  then have h0: "ranked ! 0 \<in> set ranked" by simp
  from tk h0 have r0: "snd (ranked ! 0) < length xs" and v0: "fst (ranked ! 0) = xs ! snd (ranked ! 0)"
    by (auto simp add: is_topk_def)
  from mx r0 v0 have le: "fst (ranked ! 0) \<le> xs ! i" by simp
  have srt: "sorted_wrt (\<lambda>a b. b \<le> a) (map fst ranked)"
    using tk by (simp add: is_topk_def)
  have first_max: "fst p \<le> fst (ranked ! 0)" if "p \<in> set ranked" for p
  proof -
    from that obtain m where m: "m < length ranked" "ranked ! m = p"
      by (auto simp add: in_set_conv_nth)
    show ?thesis
    proof (cases "m = 0")
      case True
      with m show ?thesis by simp
    next
      case False
      then have "0 < m" by simp
      from sorted_wrt_nth_less[OF srt this] m have "map fst ranked ! m \<le> map fst ranked ! 0"
        by simp
      with m len show ?thesis by simp
    qed
  qed
  have ge: "xs ! i \<le> fst (ranked ! 0)"
  proof (cases "i \<in> set (map snd ranked)")
    case True
    then obtain p where p: "p \<in> set ranked" "snd p = i" by auto
    with tk have "fst p = xs ! i" by (auto simp add: is_topk_def)
    with first_max[OF p(1)] show ?thesis by simp
  next
    case False
    from tk have "\<forall>j \<in> set [0..<length xs].
        j \<in> set (map snd ranked) \<or> (\<forall>v \<in> set (map fst ranked). xs ! j \<le> v)"
      unfolding is_topk_def by blast
    moreover have "i \<in> set [0..<length xs]" using i by simp
    ultimately have "i \<in> set (map snd ranked) \<or> (\<forall>v \<in> set (map fst ranked). xs ! i \<le> v)"
      by blast
    with False have "\<forall>v \<in> set (map fst ranked). xs ! i \<le> v" by blast
    with h0 show ?thesis by simp
  qed
  from le ge show eq: "fst (ranked ! 0) = xs ! i" by simp
  assume u: "\<forall>j < length xs. j \<noteq> i \<longrightarrow> xs ! j < xs ! i"
  show "snd (ranked ! 0) = i"
  proof (rule ccontr)
    assume "snd (ranked ! 0) \<noteq> i"
    with u r0 have "xs ! snd (ranked ! 0) < xs ! i" by blast
    with v0 eq show False by simp
  qed
qed

text \<open>
  C2, amended. Under the hypotheses of C1, the field \<open>top_predictions\<close> lists
  \<open>min(3, N)\<close> distinct classes, each with its true label and its own probability, in
  non-increasing order of probability, and no class left out is more probable than a listed
  one; the first entry carries the arg-max probability, and its label is the arg-max label
  whenever the maximum is attained by one class only. All of this holds also when the gate
  reports "uncertain". The order among equal probabilities is the one \<open>torch.topk\<close>
  returns, which its contract leaves open.
\<close>

theorem top_predictions_properties:
  assumes st: "startup L d loaded = Inr srv" and tk: "topk_contract (topk L)"
    and inf: "infer L srv rng file = Inr probs" and ne: "probs \<noteq> []"
  shows "\<exists>i ranked. argmax probs = Inr i
     \<and> json_get (content (predict L srv rng now file)) ''top_predictions''
         = Some (JArr (map (\<lambda>p. JObj [(''class'', JStr (class_names srv ! snd p)),
                                      (''confidence'', JNum (fst p))]) ranked))
     \<and> length probs = length (class_names srv)
     \<and> length ranked = min 3 (length (class_names srv))
     \<and> distinct (map snd ranked)
     \<and> (\<forall>p \<in> set ranked. snd p < length (class_names srv) \<and> fst p = probs ! snd p)
     \<and> sorted_wrt (\<lambda>a b. fst b \<le> fst a) ranked
     \<and> (\<forall>j < length probs. j \<in> set (map snd ranked) \<or> (\<forall>p \<in> set ranked. probs ! j \<le> fst p))
     \<and> fst (ranked ! 0) = probs ! i
     \<and> ((\<forall>j < length probs. j \<noteq> i \<longrightarrow> probs ! j < probs ! i) \<longrightarrow> snd (ranked ! 0) = i)
     \<and> (probs ! i < 65 / 100 \<longrightarrow>
          json_get (content (predict L srv rng now file)) ''prediction''
            = Some (JStr ''uncertain''))"
proof -
  from argmax_spec[OF ne] obtain i where a: "argmax probs = Inr i" and i: "i < length probs"
    and mx: "\<forall>j < length probs. probs ! j \<le> probs ! i" by blast
  define ranked where "ranked = topk L probs (min 3 (length (class_names srv)))"
  note p = predict_ok(1)[OF st tk inf a, of now]
  note t = predict_ok(2)[OF st tk inf a]
  note len = predict_ok(3)[OF st tk inf a]
  have k: "0 < min 3 (length (class_names srv))" using ne len by auto
  have j: "json_get (content (predict L srv rng now file)) ''top_predictions''
         = Some (JArr (map (\<lambda>p. JObj [(''class'', JStr (class_names srv ! snd p)),
                                      (''confidence'', JNum (fst p))]) ranked))"
    unfolding p ranked_def by (simp add: json_get_def top_entry_def)
  have g: "json_get (content (predict L srv rng now file)) ''prediction''
            = Some (JStr ''uncertain'')" if "probs ! i < 65 / 100"
    unfolding p using that by (simp add: json_get_def)
  have t': "is_topk probs (min 3 (length (class_names srv))) ranked"
    using t by (simp add: ranked_def)
  have l: "length ranked = min 3 (length (class_names srv))"
    and di: "distinct (map snd ranked)"
    and el: "\<forall>p \<in> set ranked. snd p < length (class_names srv) \<and> fst p = probs ! snd p"
    and so: "sorted_wrt (\<lambda>a b. fst b \<le> fst a) ranked"
    using t' len by (auto simp add: is_topk_def sorted_wrt_map)
  have re: "\<forall>j < length probs. j \<in> set (map snd ranked) \<or> (\<forall>p \<in> set ranked. probs ! j \<le> fst p)"
  proof (intro allI impI)
    fix j assume "j < length probs"
    then have "j \<in> set [0..<length probs]" by simp
    moreover from t' have "\<forall>j \<in> set [0..<length probs].
        j \<in> set (map snd ranked) \<or> (\<forall>v \<in> set (map fst ranked). probs ! j \<le> v)"
      unfolding is_topk_def by blast
    ultimately have "j \<in> set (map snd ranked) \<or> (\<forall>v \<in> set (map fst ranked). probs ! j \<le> v)"
      by blast
    then show "j \<in> set (map snd ranked) \<or> (\<forall>p \<in> set ranked. probs ! j \<le> fst p)"
      by auto
  qed
  note h = is_topk_head[OF t' k i mx]
  from a j len l di el so re h g show ?thesis by blast
qed

text \<open>
  C2 (amended) at the probabilities (0.40, 0.35, 0.15, 0.10): the gate reports "uncertain"
  and the list still names cataract, diabetic-retinopathy, glaucoma.
\<close>

theorem top_predictions_properties_witness:
  "startup demo_library Absent (Inr (demo_checkpoint [40 / 100, 35 / 100, 15 / 100, 10 / 100]))
     = Inr (demo_service demo_library default_classes [40 / 100, 35 / 100, 15 / 100, 10 / 100])
   \<and> topk_contract (topk demo_library)
   \<and> infer demo_library
        (demo_service demo_library default_classes [40 / 100, 35 / 100, 15 / 100, 10 / 100])
        0 demo_upload = Inr [40 / 100, 35 / 100, 15 / 100, 10 / 100]
   \<and> argmax [40 / 100, 35 / 100, 15 / 100, 10 / 100] = Inr 0
   \<and> [40 / 100, 35 / 100, 15 / 100, 10 / 100] ! 0 < (65 / 100 :: real)
   \<and> (\<exists>ranked.
         json_get (content (predict demo_library
           (demo_service demo_library default_classes [40 / 100, 35 / 100, 15 / 100, 10 / 100])
           0 ''2025-01-01T12:00:00'' demo_upload)) ''top_predictions''
           = Some (JArr (map (\<lambda>p. JObj [(''class'', JStr (default_classes ! snd p)),
                                        (''confidence'', JNum (fst p))]) ranked))
       \<and> length ranked = 3 \<and> ranked ! 0 = (40 / 100, 0))
   \<and> json_get (content (predict demo_library
        (demo_service demo_library default_classes [40 / 100, 35 / 100, 15 / 100, 10 / 100])
        0 ''2025-01-01T12:00:00'' demo_upload)) ''top_predictions''
       = Some (JArr [JObj [(''class'', JStr ''cataract''), (''confidence'', JNum (40 / 100))],
                     JObj [(''class'', JStr ''diabetic-retinopathy''),
                           (''confidence'', JNum (35 / 100))],
                     JObj [(''class'', JStr ''glaucoma''), (''confidence'', JNum (15 / 100))]])
   \<and> json_get (content (predict demo_library
        (demo_service demo_library default_classes [40 / 100, 35 / 100, 15 / 100, 10 / 100])
        0 ''2025-01-01T12:00:00'' demo_upload)) ''prediction'' = Some (JStr ''uncertain'')"
proof -
  let ?ps = "[40 / 100, 35 / 100, 15 / 100, 10 / 100] :: real list"
  let ?srv = "demo_service demo_library default_classes ?ps"
  let ?now = "''2025-01-01T12:00:00''"
  have st: "startup demo_library Absent (Inr (demo_checkpoint ?ps)) = Inr ?srv"
    by (rule demo_startup[OF class_names_absent]) (simp add: default_classes_def)
  have inf: "infer demo_library ?srv 0 demo_upload = Inr ?ps"
    by (rule demo_infer[OF class_names_absent _ demo_image_open]) (simp_all add: default_classes_def)
  have a: "argmax ?ps = Inr 0" by (simp add: argmax_def)
  have ne: "?ps \<noteq> []" by simp
  have cn: "class_names ?srv = default_classes" by (simp add: demo_service_def)
  have uniq: "\<forall>j < length ?ps. j \<noteq> 0 \<longrightarrow> ?ps ! j < ?ps ! 0"
    by (simp add: less_Suc_eq numeral_eq_Suc)
  from top_predictions_properties[OF st demo_topk_contract inf ne, of ?now] a
  obtain ranked where
    j: "json_get (content (predict demo_library ?srv 0 ?now demo_upload)) ''top_predictions''
         = Some (JArr (map (\<lambda>p. JObj [(''class'', JStr (class_names ?srv ! snd p)),
                                      (''confidence'', JNum (fst p))]) ranked))"
    and l: "length ranked = min 3 (length (class_names ?srv))"
    and f: "fst (ranked ! 0) = ?ps ! 0"
    and s: "(\<forall>j < length ?ps. j \<noteq> 0 \<longrightarrow> ?ps ! j < ?ps ! 0) \<longrightarrow> snd (ranked ! 0) = 0"
    and g: "?ps ! 0 < 65 / 100 \<longrightarrow>
          json_get (content (predict demo_library ?srv 0 ?now demo_upload)) ''prediction''
            = Some (JStr ''uncertain'')"
    by auto
  from s uniq have s0: "snd (ranked ! 0) = 0" by blast
  from f s0 have r0: "ranked ! 0 = (40 / 100, 0)" by (simp add: prod_eq_iff)
  from l have l3: "length ranked = 3" unfolding cn by (simp add: default_classes_def)
  from g have unc: "json_get (content (predict demo_library ?srv 0 ?now demo_upload)) ''prediction''
            = Some (JStr ''uncertain'')" by simp
  have ex: "\<exists>ranked.
         json_get (content (predict demo_library ?srv 0 ?now demo_upload)) ''top_predictions''
           = Some (JArr (map (\<lambda>p. JObj [(''class'', JStr (default_classes ! snd p)),
                                        (''confidence'', JNum (fst p))]) ranked))
       \<and> length ranked = 3 \<and> ranked ! 0 = (40 / 100, 0)"
    using j l3 r0 unfolding cn by blast
  have tkv: "topk demo_library ?ps (min 3 (length default_classes))
       = [(40 / 100, 0), (35 / 100, 1), (15 / 100, 2)]"
    by (simp add: default_classes_def demo_library_def topk_ties_ascending_def)
  have val: "json_get (content (predict demo_library ?srv 0 ?now demo_upload)) ''top_predictions''
       = Some (JArr [JObj [(''class'', JStr ''cataract''), (''confidence'', JNum (40 / 100))],
                     JObj [(''class'', JStr ''diabetic-retinopathy''),
                           (''confidence'', JNum (35 / 100))],
                     JObj [(''class'', JStr ''glaucoma''), (''confidence'', JNum (15 / 100))]])"
    unfolding predict_ok(1)[OF st demo_topk_contract inf a] cn tkv
    by (simp add: json_get_def top_entry_def default_classes_def)
  from st demo_topk_contract inf a ex val unc show ?thesis by simp
qed

text \<open>
  C2 as stated fails with a \<open>torch.topk\<close> that meets its contract and returns equal values
  in descending order of index: on four equal probabilities the list is normal, glaucoma,
  diabetic-retinopathy, neither in ascending order of class index nor headed by the arg-max
  class (index 0, cataract).
\<close>

theorem top_predictions_tie_order:
  "topk_contract (topk tie_library)
   \<and> startup tie_library Absent (Inr (demo_checkpoint [1 / 4, 1 / 4, 1 / 4, 1 / 4]))
       = Inr (demo_service tie_library default_classes [1 / 4, 1 / 4, 1 / 4, 1 / 4])
   \<and> infer tie_library (demo_service tie_library default_classes [1 / 4, 1 / 4, 1 / 4, 1 / 4])
        0 demo_upload = Inr [1 / 4, 1 / 4, 1 / 4, 1 / 4]
   \<and> argmax [1 / 4, 1 / 4, 1 / 4, 1 / 4] = Inr 0
   \<and> default_classes ! 0 = ''cataract''
   \<and> json_get (content (predict tie_library
        (demo_service tie_library default_classes [1 / 4, 1 / 4, 1 / 4, 1 / 4])
        0 ''2025-01-01T12:00:00'' demo_upload)) ''top_predictions''
       = Some (JArr [JObj [(''class'', JStr ''normal''), (''confidence'', JNum (1 / 4))],
                     JObj [(''class'', JStr ''glaucoma''), (''confidence'', JNum (1 / 4))],
                     JObj [(''class'', JStr ''diabetic-retinopathy''),
                           (''confidence'', JNum (1 / 4))]])"
proof -
  let ?ps = "[1 / 4, 1 / 4, 1 / 4, 1 / 4] :: real list"
  let ?srv = "demo_service tie_library default_classes ?ps"
  have st: "startup tie_library Absent (Inr (demo_checkpoint ?ps)) = Inr ?srv"
    by (rule demo_startup[OF class_names_absent]) (simp add: default_classes_def)
  have inf: "infer tie_library ?srv 0 demo_upload = Inr ?ps"
    by (rule demo_infer[OF class_names_absent _ tie_image_open]) (simp_all add: default_classes_def)
  have a: "argmax ?ps = Inr 0" by (simp add: argmax_def)
  have cn: "class_names ?srv = default_classes" by (simp add: demo_service_def)
  have tkv: "topk tie_library ?ps (min 3 (length default_classes))
       = [(1 / 4, 3), (1 / 4, 2), (1 / 4, 1)]"
    by (simp add: default_classes_def tie_library_def topk_ties_descending_def)
  have val: "json_get (content (predict tie_library ?srv 0 ''2025-01-01T12:00:00'' demo_upload))
        ''top_predictions''
       = Some (JArr [JObj [(''class'', JStr ''normal''), (''confidence'', JNum (1 / 4))],
                     JObj [(''class'', JStr ''glaucoma''), (''confidence'', JNum (1 / 4))],
                     JObj [(''class'', JStr ''diabetic-retinopathy''),
                           (''confidence'', JNum (1 / 4))]])"
    unfolding predict_ok(1)[OF st tie_topk_contract inf a] cn tkv
    by (simp add: json_get_def top_entry_def default_classes_def)
  have c0: "default_classes ! 0 = ''cataract''" by (simp add: default_classes_def)
  from tie_topk_contract st inf a c0 val show ?thesis by simp
qed

section \<open>Two calls of predict; the route of app.py\<close>

lemma respond_timestamp:
  "(\<exists>e. \<forall>now. respond L names f now probs = Inl e)
   \<or> (\<exists>a b c d. \<forall>now. respond L names f now probs =
         Inr (JObj [(''filename'', JStr f), (''prediction'', a), (''confidence'', b),
                    (''top_predictions'', c), (''message'', d), (''timestamp'', JStr now)]))"
proof (cases "argmax probs")
  case (Inl e)
  then show ?thesis by (simp add: respond_def err_bind_Inl)
next
  case i: (Inr i)
  show ?thesis
  proof (cases "getitem probs i")
    case (Inl e)
    then show ?thesis by (simp add: respond_def i err_bind_Inl err_bind_Inr)
  next
    case c: (Inr confidence)
    show ?thesis
    proof (cases "getitem names i")
      case (Inl e)
      then show ?thesis by (simp add: respond_def i c err_bind_Inl err_bind_Inr)
    next
      case l: (Inr label)
      show ?thesis
      proof (cases "torch_topk L probs (min 3 (length names))")
        case (Inl e)
        then show ?thesis by (simp add: respond_def i c l err_bind_Inl err_bind_Inr)
      next
        case t: (Inr ranked)
        show ?thesis
        proof (cases "err_map (\<lambda>p. err_bind (getitem names (snd p)) (\<lambda>c.
                  Inr (JObj [(''class'', JStr c), (''confidence'', JNum (fst p))]))) ranked")
          case (Inl e)
          then show ?thesis by (simp add: respond_def i c l t err_bind_Inl err_bind_Inr)
        next
          case (Inr tp)
          then show ?thesis
            by (simp add: respond_def i c l t err_bind_Inr Let_def)
        qed
      qed
    qed
  qed
qed

text \<open>
  C8. For a started service (so in eval mode) two calls of \<open>predict\<close> on the same upload,
  at any two states of the random generator and any two times, answer with the same status
  and agree on every field other than \<open>timestamp\<close> (so on \<open>prediction\<close>,
  \<open>confidence\<close> and the whole of \<open>top_predictions\<close>); on success each
  \<open>timestamp\<close> is the time of its own call.
\<close>

theorem predict_idempotent:
  assumes st: "startup L d loaded = Inr srv"
  shows "status_code (predict L srv rng1 now1 file) = status_code (predict L srv rng2 now2 file)
     \<and> (\<forall>key. key \<noteq> ''timestamp'' \<longrightarrow>
           json_get (content (predict L srv rng1 now1 file)) key
             = json_get (content (predict L srv rng2 now2 file)) key)
     \<and> (status_code (predict L srv rng1 now1 file) = 200 \<longrightarrow>
           json_get (content (predict L srv rng1 now1 file)) ''timestamp'' = Some (JStr now1)
         \<and> json_get (content (predict L srv rng2 now2 file)) ''timestamp'' = Some (JStr now2))"
proof -
  have same: "infer L srv rng2 file = infer L srv rng1 file"
    by (rule infer_rng[OF st])
  show ?thesis
  proof (cases "infer L srv rng1 file")
    case (Inl e)
    then show ?thesis by (simp add: predict_def same err_bind_Inl)
  next
    case (Inr probs)
    from respond_timestamp[of L "class_names srv" "filename file" probs]
    show ?thesis
    proof (elim disjE exE)
      fix e assume "\<forall>now. respond L (class_names srv) (filename file) now probs = Inl e"
      then show ?thesis by (simp add: predict_def same Inr err_bind_Inr)
    next
      fix a b c d
      assume "\<forall>now. respond L (class_names srv) (filename file) now probs =
         Inr (JObj [(''filename'', JStr (filename file)), (''prediction'', a), (''confidence'', b),
                    (''top_predictions'', c), (''message'', d), (''timestamp'', JStr now)])"
      then show ?thesis by (simp add: predict_def same Inr err_bind_Inr json_get_def)
    qed
  qed
qed

text \<open>
  C8 at the concrete service, with two generator states and two times.
\<close>

theorem predict_idempotent_witness:
  "startup demo_library Absent (Inr (demo_checkpoint [7 / 10, 1 / 10, 12 / 100, 8 / 100]))
     = Inr (demo_service demo_library default_classes [7 / 10, 1 / 10, 12 / 100, 8 / 100])
   \<and> status_code (predict demo_library
        (demo_service demo_library default_classes [7 / 10, 1 / 10, 12 / 100, 8 / 100])
        0 ''2025-01-01T12:00:00'' demo_upload) = 200
   \<and> status_code (predict demo_library
        (demo_service demo_library default_classes [7 / 10, 1 / 10, 12 / 100, 8 / 100])
        1 ''2025-01-01T12:00:07'' demo_upload) = 200
   \<and> json_get (content (predict demo_library
        (demo_service demo_library default_classes [7 / 10, 1 / 10, 12 / 100, 8 / 100])
        0 ''2025-01-01T12:00:00'' demo_upload)) ''prediction''
     = json_get (content (predict demo_library
        (demo_service demo_library default_classes [7 / 10, 1 / 10, 12 / 100, 8 / 100])
        1 ''2025-01-01T12:00:07'' demo_upload)) ''prediction''
   \<and> json_get (content (predict demo_library
        (demo_service demo_library default_classes [7 / 10, 1 / 10, 12 / 100, 8 / 100])
        0 ''2025-01-01T12:00:00'' demo_upload)) ''confidence''
     = json_get (content (predict demo_library
        (demo_service demo_library default_classes [7 / 10, 1 / 10, 12 / 100, 8 / 100])
        1 ''2025-01-01T12:00:07'' demo_upload)) ''confidence''
   \<and> json_get (content (predict demo_library
        (demo_service demo_library default_classes [7 / 10, 1 / 10, 12 / 100, 8 / 100])
        0 ''2025-01-01T12:00:00'' demo_upload)) ''top_predictions''
     = json_get (content (predict demo_library
        (demo_service demo_library default_classes [7 / 10, 1 / 10, 12 / 100, 8 / 100])
        1 ''2025-01-01T12:00:07'' demo_upload)) ''top_predictions''
   \<and> json_get (content (predict demo_library
        (demo_service demo_library default_classes [7 / 10, 1 / 10, 12 / 100, 8 / 100])
        0 ''2025-01-01T12:00:00'' demo_upload)) ''timestamp''
     = Some (JStr ''2025-01-01T12:00:00'')
   \<and> json_get (content (predict demo_library
        (demo_service demo_library default_classes [7 / 10, 1 / 10, 12 / 100, 8 / 100])
        1 ''2025-01-01T12:00:07'' demo_upload)) ''timestamp''
     = Some (JStr ''2025-01-01T12:00:07'')
   \<and> json_get (content (predict demo_library
        (demo_service demo_library default_classes [7 / 10, 1 / 10, 12 / 100, 8 / 100])
        0 ''2025-01-01T12:00:00'' demo_upload)) ''prediction'' = Some (JStr ''cataract'')
   \<and> json_get (content (predict demo_library
        (demo_service demo_library default_classes [7 / 10, 1 / 10, 12 / 100, 8 / 100])
        0 ''2025-01-01T12:00:00'' demo_upload)) ''confidence'' = Some (JNum (7 / 10))"
proof -
  let ?ps = "[7 / 10, 1 / 10, 12 / 100, 8 / 100] :: real list"
  let ?srv = "demo_service demo_library default_classes ?ps"
  let ?t1 = "''2025-01-01T12:00:00''"
  let ?t2 = "''2025-01-01T12:00:07''"
  have st: "startup demo_library Absent (Inr (demo_checkpoint ?ps)) = Inr ?srv"
    by (rule demo_startup[OF class_names_absent]) (simp add: default_classes_def)
  have inf: "infer demo_library ?srv 0 demo_upload = Inr ?ps"
    by (rule demo_infer[OF class_names_absent _ demo_image_open]) (simp_all add: default_classes_def)
  have a: "argmax ?ps = Inr 0" by (simp add: argmax_def)
  have cn: "class_names ?srv = default_classes" by (simp add: demo_service_def)
  note p1 = predict_ok(1)[OF st demo_topk_contract inf a, of ?t1]
  have s1: "status_code (predict demo_library ?srv 0 ?t1 demo_upload) = 200"
    unfolding p1 by simp
  have pr: "json_get (content (predict demo_library ?srv 0 ?t1 demo_upload)) ''prediction''
      = Some (JStr ''cataract'')"
    unfolding p1 cn by (simp add: json_get_def default_classes_def)
  have "round_half_even (7 / 10 * 10 ^ 4) = 7000"
    by (simp add: round_half_even_def Let_def)
  then have r: "py_round (7 / 10) 4 = 7 / 10"
    by (simp add: py_round_def)
  have co: "json_get (content (predict demo_library ?srv 0 ?t1 demo_upload)) ''confidence''
      = Some (JNum (7 / 10))"
    unfolding p1 using r by (simp add: json_get_def)
  note i = predict_idempotent[OF st, of 0 ?t1 demo_upload 1 ?t2]
  from i s1 have s2: "status_code (predict demo_library ?srv 1 ?t2 demo_upload) = 200"
    by simp
  from i have e1: "json_get (content (predict demo_library ?srv 0 ?t1 demo_upload)) ''prediction''
     = json_get (content (predict demo_library ?srv 1 ?t2 demo_upload)) ''prediction''"
    by simp
  from i have e2: "json_get (content (predict demo_library ?srv 0 ?t1 demo_upload)) ''confidence''
     = json_get (content (predict demo_library ?srv 1 ?t2 demo_upload)) ''confidence''"
    by simp
  from i have e3: "json_get (content (predict demo_library ?srv 0 ?t1 demo_upload)) ''top_predictions''
     = json_get (content (predict demo_library ?srv 1 ?t2 demo_upload)) ''top_predictions''"
    by simp
  from i s1 have t1: "json_get (content (predict demo_library ?srv 0 ?t1 demo_upload)) ''timestamp''
     = Some (JStr ?t1)" by simp
  from i s1 have t2: "json_get (content (predict demo_library ?srv 1 ?t2 demo_upload)) ''timestamp''
     = Some (JStr ?t2)" by simp
  from st s1 s2 e1 e2 e3 t1 t2 pr co show ?thesis by blast
qed

lemma getitem_Inr: "getitem xs i = Inr v \<Longrightarrow> i < length xs \<and> v = xs ! i"
  by (auto simp add: getitem_def split: if_splits)

text \<open>
  C10. Whenever the route of app.py returns for an upload, its answer is exactly the four
  fields \<open>filename\<close>, \<open>prediction\<close>, \<open>confidence\<close>, \<open>timestamp\<close>: there is no
  \<open>top_predictions\<close> and no \<open>message\<close>; \<open>prediction\<close> is the label of the arg-max
  class whatever its probability, so it is "uncertain" only if a class has that name.
\<close>

theorem app_predict_no_gate:
  assumes st: "startup L d loaded = Inr srv"
    and acc: "predict_app L srv rng utcnow file = Inr c"
  shows "\<exists>probs i. infer L srv rng file = Inr probs \<and> argmax probs = Inr i
     \<and> i < length (class_names srv)
     \<and> (\<forall>j < length probs. probs ! j \<le> probs ! i)
     \<and> c = JObj [(''filename'', JStr (filename file)),
                 (''prediction'', JStr (class_names srv ! i)),
                 (''confidence'', JNum (py_round (probs ! i) 4)),
                 (''timestamp'', JStr utcnow)]
     \<and> json_keys c = [''filename'', ''prediction'', ''confidence'', ''timestamp'']
     \<and> json_get c ''top_predictions'' = None
     \<and> json_get c ''message'' = None
     \<and> (''uncertain'' \<notin> set (class_names srv)
          \<longrightarrow> json_get c ''prediction'' \<noteq> Some (JStr ''uncertain''))"
proof -
  from acc obtain probs where inf: "infer L srv rng file = Inr probs"
    and r: "respond_app (class_names srv) (filename file) utcnow probs = Inr c"
    unfolding predict_app_def err_bind_eq_Inr by blast
  from r obtain i confidence prediction where a: "argmax probs = Inr i"
    and g1: "getitem probs i = Inr confidence"
    and g2: "getitem (class_names srv) i = Inr prediction"
    and c: "c = JObj [(''filename'', JStr (filename file)),
                 (''prediction'', JStr prediction),
                 (''confidence'', JNum (py_round confidence 4)),
                 (''timestamp'', JStr utcnow)]"
    unfolding respond_app_def err_bind_eq_Inr by auto
  from getitem_Inr[OF g1] have cf: "confidence = probs ! i" by simp
  from getitem_Inr[OF g2] have i: "i < length (class_names srv)"
    and pr: "prediction = class_names srv ! i" by simp_all
  have mx: "\<forall>j < length probs. probs ! j \<le> probs ! i" by (rule argmax_Inr(2)[OF a])
  have c': "c = JObj [(''filename'', JStr (filename file)),
                 (''prediction'', JStr (class_names srv ! i)),
                 (''confidence'', JNum (py_round (probs ! i) 4)),
                 (''timestamp'', JStr utcnow)]"
    using c cf pr by simp
  have k: "json_keys c = [''filename'', ''prediction'', ''confidence'', ''timestamp'']"
    unfolding c' by (simp add: json_keys_def)
  have n1: "json_get c ''top_predictions'' = None"
    unfolding c' by (simp add: json_get_def)
  have n2: "json_get c ''message'' = None"
    unfolding c' by (simp add: json_get_def)
  have u: "json_get c ''prediction'' \<noteq> Some (JStr ''uncertain'')"
    if "''uncertain'' \<notin> set (class_names srv)"
  proof -
    from i have "class_names srv ! i \<in> set (class_names srv)" by simp
    with that have "class_names srv ! i \<noteq> ''uncertain''" by metis
    then show ?thesis unfolding c' by (simp add: json_get_def)
  qed
  from inf a i mx c' k n1 n2 u show ?thesis by blast
qed

text \<open>
  C10 at a top probability of 0.40: app.py reports cataract where main.py reports
  "uncertain".
\<close>

theorem app_predict_no_gate_witness:
  "startup demo_library Absent (Inr (demo_checkpoint [40 / 100, 35 / 100, 15 / 100, 10 / 100]))
     = Inr (demo_service demo_library default_classes [40 / 100, 35 / 100, 15 / 100, 10 / 100])
   \<and> predict_app demo_library
        (demo_service demo_library default_classes [40 / 100, 35 / 100, 15 / 100, 10 / 100])
        0 ''2025-01-01T11:00:00'' demo_upload
       = Inr (JObj [(''filename'', JStr ''fundus.png''),
                    (''prediction'', JStr ''cataract''),
                    (''confidence'', JNum (4 / 10)),
                    (''timestamp'', JStr ''2025-01-01T11:00:00'')])
   \<and> ''uncertain'' \<notin> set (class_names
        (demo_service demo_library default_classes [40 / 100, 35 / 100, 15 / 100, 10 / 100]))
   \<and> [40 / 100, 35 / 100, 15 / 100, 10 / 100] ! 0 < (65 / 100 :: real)
   \<and> json_get (JObj [(''filename'', JStr ''fundus.png''),
                    (''prediction'', JStr ''cataract''),
                    (''confidence'', JNum (4 / 10)),
                    (''timestamp'', JStr ''2025-01-01T11:00:00'')]) ''prediction''
       \<noteq> Some (JStr ''uncertain'')
   \<and> json_get (JObj [(''filename'', JStr ''fundus.png''),
                    (''prediction'', JStr ''cataract''),
                    (''confidence'', JNum (4 / 10)),
                    (''timestamp'', JStr ''2025-01-01T11:00:00'')]) ''top_predictions'' = None
   \<and> json_get (JObj [(''filename'', JStr ''fundus.png''),
                    (''prediction'', JStr ''cataract''),
                    (''confidence'', JNum (4 / 10)),
                    (''timestamp'', JStr ''2025-01-01T11:00:00'')]) ''message'' = None"
proof -
  let ?ps = "[40 / 100, 35 / 100, 15 / 100, 10 / 100] :: real list"
  let ?srv = "demo_service demo_library default_classes ?ps"
  let ?t = "''2025-01-01T11:00:00''"
  let ?c = "JObj [(''filename'', JStr ''fundus.png''),
                    (''prediction'', JStr ''cataract''),
                    (''confidence'', JNum (4 / 10)),
                    (''timestamp'', JStr ?t)]"
  have st: "startup demo_library Absent (Inr (demo_checkpoint ?ps)) = Inr ?srv"
    by (rule demo_startup[OF class_names_absent]) (simp add: default_classes_def)
  have inf: "infer demo_library ?srv 0 demo_upload = Inr ?ps"
    by (rule demo_infer[OF class_names_absent _ demo_image_open]) (simp_all add: default_classes_def)
  have a: "argmax ?ps = Inr 0" by (simp add: argmax_def)
  have cn: "class_names ?srv = default_classes" by (simp add: demo_service_def)
  have len: "length ?ps = length default_classes" by (simp add: default_classes_def)
  have "round_half_even (40 / 100 * 10 ^ 4) = 4000"
    by (simp add: round_half_even_def Let_def)
  then have r: "py_round (40 / 100) 4 = 4 / 10"
    by (simp add: py_round_def)
  have acc: "predict_app demo_library ?srv 0 ?t demo_upload = Inr ?c"
    unfolding predict_app_def inf err_bind_Inr cn respond_app_ok[OF a len]
    using r by (simp add: demo_upload_def default_classes_def)
  have nu: "''uncertain'' \<notin> set (class_names ?srv)"
    unfolding cn by (simp add: default_classes_def)
  from app_predict_no_gate[OF st acc] nu
  have "json_get ?c ''prediction'' \<noteq> Some (JStr ''uncertain'')
      \<and> json_get ?c ''top_predictions'' = None \<and> json_get ?c ''message'' = None"
    by blast
  with st acc nu show ?thesis by simp
qed

section \<open>The training script on an empty dataset\<close>

lemma ImageFolder_empty:
  assumes "image_files L d = []"
  shows "ImageFolder L d = Inl (if d = NotDirectory then NotADirectoryError else FileNotFoundError)"
proof (cases d)
  case Absent
  then show ?thesis by (simp add: ImageFolder_def)
next
  case NotDirectory
  then show ?thesis by (simp add: ImageFolder_def)
next
  case (Directory entries)
  define dirs where "dirs = sort_key node_name [p \<leftarrow> entries. is_dir p]"
  have none: "\<forall>p \<in> set dirs. class_samples L p = []"
    using assms Directory by (auto simp add: image_files_def dirs_def)
  show ?thesis
  proof (cases dirs)
    case Nil
    then show ?thesis
      using Directory by (simp add: ImageFolder_def dirs_def[symmetric] Let_def)
  next
    case (Cons p rest)
    with none have "class_samples L p = []" by simp
    then have "[] \<in> set (map (\<lambda>(idx, p). map (\<lambda>b. (b, idx)) (class_samples L p))
                              (enumerate 0 dirs))"
      using Cons by (simp add: enumerate_simps)
    then show ?thesis
      using Directory Cons by (simp add: ImageFolder_def dirs_def[symmetric] Let_def)
  qed
qed

text \<open>
  C3, amended. If the dataset is empty (no image file below any class folder of the data
  directory, or no data directory), the script ends at the construction of
  \<open>ImageFolder\<close> with its exception (\<open>FileNotFoundError\<close>; \<open>NotADirectoryError\<close> when
  the path is not a directory): after the line naming the device nothing is printed, no
  epoch begins, nothing is saved.
\<close>

theorem empty_dataset_fails_before_training:
  assumes "image_files L d = []"
  shows "train_script step opt0 L d rng =
     ([UsingDevice], Inl (if d = NotDirectory then NotADirectoryError else FileNotFoundError))"
  using ImageFolder_empty[OF assms] by (simp add: train_script_def)

text \<open>
  C3 (amended) at a data directory whose two class folders hold no file.
\<close>

theorem empty_dataset_fails_before_training_witness:
  "image_files demo_library (Directory [Dir ''cataract'' [], Dir ''normal'' []]) = []
   \<and> train_script demo_step () demo_library
        (Directory [Dir ''cataract'' [], Dir ''normal'' []]) 0
       = ([UsingDevice], Inl FileNotFoundError)"
proof -
  have e: "image_files demo_library (Directory [Dir ''cataract'' [], Dir ''normal'' []]) = []"
    by (simp add: image_files_def class_samples_def)
  from empty_dataset_fails_before_training[OF e, of demo_step "()" 0] e
  show ?thesis by simp
qed

text \<open>
  C3 as stated fails in the class of the error: on a data directory without class folders
  the script ends with the \<open>FileNotFoundError\<close> of \<open>ImageFolder\<close>; the code defines and
  raises no \<open>ConfigurationError\<close>.
\<close>

theorem empty_dataset_error:
  "train_script demo_step () demo_library (Directory []) 0
     = ([UsingDevice], Inl FileNotFoundError)
   \<and> train_script demo_step () demo_library Absent 0
     = ([UsingDevice], Inl FileNotFoundError)"
  by (simp add: train_script_def ImageFolder_def)

section \<open>Properties of the class registry\<close>

lemma subdir_names_eq:
  "[node_name p. p \<leftarrow> entries, is_dir p] = map node_name (filter is_dir entries)"
  by (induction entries) auto

text \<open>
  C5. When the labelled-image directory exists, the registry is exactly the names of its
  immediate subdirectories (each as often as \<open>iterdir\<close> yields it, plain files left out),
  in ascending lexicographic order; the four subfolders normal, cataract, glaucoma, dr give
  cataract, dr, glaucoma, normal; when the directory is absent the registry is the fixed
  list of four labels.
\<close>

theorem class_names_sorted_subdirs:
  "(\<exists>names. CLASS_NAMES (Directory entries) = Inr names
       \<and> sorted names
       \<and> mset names = mset (map node_name (filter is_dir entries)))
   \<and> CLASS_NAMES (Directory [Dir ''normal'' [], Dir ''cataract'' [],
                              Dir ''glaucoma'' [], Dir ''dr'' []])
       = Inr [''cataract'', ''dr'', ''glaucoma'', ''normal'']
   \<and> CLASS_NAMES Absent
       = Inr [''cataract'', ''diabetic-retinopathy'', ''glaucoma'', ''normal'']
   \<and> length default_classes = 4"
proof -
  have a: "\<exists>names. CLASS_NAMES (Directory entries) = Inr names
       \<and> sorted names \<and> mset names = mset (map node_name (filter is_dir entries))"
    by (simp add: CLASS_NAMES_def subdir_names_eq)
  have b: "CLASS_NAMES (Directory [Dir ''normal'' [], Dir ''cataract'' [],
                              Dir ''glaucoma'' [], Dir ''dr'' []])
       = Inr [''cataract'', ''dr'', ''glaucoma'', ''normal'']"
    by (simp add: CLASS_NAMES_def)
  have c: "CLASS_NAMES Absent
       = Inr [''cataract'', ''diabetic-retinopathy'', ''glaucoma'', ''normal'']"
    by (simp add: CLASS_NAMES_def default_classes_def)
  have d: "length default_classes = 4"
    by (simp add: default_classes_def)
  from a b c d show ?thesis by blast
qed

text \<open>
  C4 as stated fails: a directory that exists and has no subdirectory gives the empty
  registry, and no error.
\<close>

theorem class_names_empty_directory:
  "CLASS_NAMES (Directory []) = Inr []
   \<and> CLASS_NAMES (Directory [File ''README.txt'' []]) = Inr []"
  by (simp add: CLASS_NAMES_def)

text \<open>
  C4, amended. Building the registry from a directory never fails: the result is exactly
  the names of its subdirectories in ascending order, and it is the empty registry exactly
  when the directory has no subdirectory; an absent directory gives the four default
  labels, so that branch is never empty.
\<close>

theorem class_names_directory_total:
  "(\<exists>names. CLASS_NAMES (Directory entries) = Inr names
       \<and> sorted names
       \<and> mset names = mset (map node_name (filter is_dir entries))
       \<and> (names = [] \<longleftrightarrow> filter is_dir entries = []))
   \<and> CLASS_NAMES Absent
       = Inr [''cataract'', ''diabetic-retinopathy'', ''glaucoma'', ''normal'']
   \<and> [''cataract'', ''diabetic-retinopathy'', ''glaucoma'', ''normal''] \<noteq> ([] :: string list)"
proof -
  have e: "sort (map node_name (filter is_dir entries)) = [] \<longleftrightarrow> filter is_dir entries = []"
    by (metis length_sort length_map length_0_conv)
  have a: "\<exists>names. CLASS_NAMES (Directory entries) = Inr names
       \<and> sorted names
       \<and> mset names = mset (map node_name (filter is_dir entries))
       \<and> (names = [] \<longleftrightarrow> filter is_dir entries = [])"
    using e by (simp add: CLASS_NAMES_def subdir_names_eq)
  have b: "CLASS_NAMES Absent
       = Inr [''cataract'', ''diabetic-retinopathy'', ''glaucoma'', ''normal'']"
    by (simp add: CLASS_NAMES_def default_classes_def)
  from a b show ?thesis by simp
qed

end
